theory Spec2Isabelle
  imports Complex_Main "HOL-Library.Sublist" "HOL-Library.AList"
begin

section \<open>JavaScript values used by the services\<close>

text \<open>
  Strings are lists of code units; the model covers the code units below 256, which is
  what \<^typ>\<open>char\<close> holds. Numbers that the code uses as positions, lengths and counts are
  integers. Every function below is the translation of the method of the same name; the
  prefix \<open>js_\<close> marks a built-in of the language rather than code of the repository.
\<close>

text \<open>What a \<open>throw\<close> or a rejected promise carries: an \<open>Error\<close> object of one of
  the classes below with its message, or a value that is not an \<open>Error\<close>, given
  by its string form.\<close>

datatype js_error =
  TypeError string
| Error string
| ApiError string nat string
| NonError string

text \<open>\<open>Array.prototype.slice(start)\<close>: a negative start counts from the end, and both
  ends are clamped to the array. \<open>slice(-0)\<close> is \<open>slice(0)\<close>.\<close>

definition js_slice :: "'a list \<Rightarrow> int \<Rightarrow> 'a list" where
  "js_slice xs start =
     (let len = int (length xs);
          k = (if start < 0 then max (len + start) 0 else min start len)
      in drop (nat k) xs)"

text \<open>\<open>String.prototype.substring(start, end)\<close>: both arguments are clamped to
  \<open>[0, length]\<close> and swapped when the first is the larger.\<close>

definition js_substring :: "string \<Rightarrow> int \<Rightarrow> int \<Rightarrow> string" where
  "js_substring s a b =
     (let len = int (length s);
          a' = min (max a 0) len;
          b' = min (max b 0) len;
          lo = min a' b';
          hi = max a' b'
      in take (nat (hi - lo)) (drop (nat lo) s))"


text \<open>\<open>Array.prototype.join(sep)\<close> on an array of strings.\<close>

fun js_join :: "string \<Rightarrow> string list \<Rightarrow> string" where
  "js_join sep [] = []"
| "js_join sep [x] = x"
| "js_join sep (x # y # ys) = x @ sep @ js_join sep (y # ys)"

text \<open>An indexed read \<open>xs[i]\<close>: \<open>undefined\<close> (here \<open>None\<close>) out of range.\<close>

definition js_index :: "'a list \<Rightarrow> int \<Rightarrow> 'a option" where
  "js_index xs i = (if 0 \<le> i \<and> i < int (length xs) then Some (xs ! nat i) else None)"

text \<open>The decimal form of a non-negative integer, as a template literal prints it.\<close>

fun show_nat :: "nat \<Rightarrow> string" where
  "show_nat n =
     (if n < 10 then [char_of (48 + n)]
      else show_nat (n div 10) @ [char_of (48 + n mod 10)])"

declare show_nat.simps [simp del]

text \<open>\<open>String.prototype.includes\<close>.\<close>

fun js_includes :: "string \<Rightarrow> string \<Rightarrow> bool" where
  "js_includes [] sub = (sub = [])"
| "js_includes (c # cs) sub = (prefix sub (c # cs) \<or> js_includes cs sub)"

section \<open>Memory service (\<open>services/memory.service.ts\<close>)\<close>

datatype role = User | Assistant | System

record Message =
  role :: role
  content :: string
  timestamp :: string

record Session =
  id_s :: string
  messages :: "Message list"
  created_at :: string
  last_activity :: string

text \<open>The service owns one table of sessions. The two limits are set once by the
  constructor.\<close>

record MemoryService =
  sessions :: "string \<rightharpoonup> Session"

definition maxMessagesPerSession :: nat where
  "maxMessagesPerSession = 50"

definition newMemoryService :: MemoryService where
  "newMemoryService = \<lparr>sessions = Map.empty\<rparr>"

text \<open>The clock of one call: the ISO string \<open>new Date().toISOString()\<close> gives, the
  milliseconds \<open>Date.now()\<close> gives, and the parse \<open>new Date(s).getTime()\<close>, which is
  \<open>NaN\<close> (here \<open>None\<close>) on a string that is not a date.\<close>

record Clock =
  now_iso :: string
  now_ms :: int
  parse_date :: "string \<Rightarrow> int option"

definition getSession :: "MemoryService \<Rightarrow> Clock \<Rightarrow> string \<Rightarrow> MemoryService \<times> Session" where
  "getSession svc clk sessionId =
     (case sessions svc sessionId of
        Some existingSession \<Rightarrow>
          (let s = existingSession\<lparr>last_activity := now_iso clk\<rparr>
           in (svc\<lparr>sessions := (sessions svc)(sessionId \<mapsto> s)\<rparr>, s))
      | None \<Rightarrow>
          (let newSession = \<lparr>id_s = sessionId, messages = [],
                              created_at = now_iso clk, last_activity = now_iso clk\<rparr>
           in (svc\<lparr>sessions := (sessions svc)(sessionId \<mapsto> newSession)\<rparr>, newSession)))"

text \<open>A message without a timestamp (the empty string is the only falsy string) gets
  the time of insertion.\<close>

definition stamp :: "Clock \<Rightarrow> Message \<Rightarrow> Message" where
  "stamp clk message =
     (if timestamp message = [] then message\<lparr>timestamp := now_iso clk\<rparr> else message)"

text \<open>\<open>push\<close>, then \<open>splice(0, messagesToRemove)\<close> when the list is longer than the
  limit.\<close>

definition addMessage :: "MemoryService \<Rightarrow> Clock \<Rightarrow> string \<Rightarrow> Message \<Rightarrow> MemoryService" where
  "addMessage svc clk sessionId message =
     (let (svc1, session) = getSession svc clk sessionId;
          pushed = messages session @ [stamp clk message];
          trimmed =
            (if length pushed > maxMessagesPerSession
             then (let messagesToRemove = length pushed - maxMessagesPerSession
                   in drop messagesToRemove pushed)
             else pushed)
      in svc1\<lparr>sessions := (sessions svc1)
           (sessionId \<mapsto> session\<lparr>messages := trimmed, last_activity := now_iso clk\<rparr>)\<rparr>)"

definition getRecentMessages :: "MemoryService \<Rightarrow> string \<Rightarrow> int \<Rightarrow> Message list" where
  "getRecentMessages svc sessionId limit =
     (case sessions svc sessionId of
        None \<Rightarrow> []
      | Some session \<Rightarrow> js_slice (messages session) (- limit))"

definition getConversationContext :: "MemoryService \<Rightarrow> string \<Rightarrow> int \<Rightarrow> Message list" where
  "getConversationContext svc sessionId includeLastN =
     (case sessions svc sessionId of
        None \<Rightarrow> []
      | Some session \<Rightarrow>
          if length (messages session) = 0 then []
          else js_slice (messages session) (- includeLastN))"

definition formatTimeAgo :: "Clock \<Rightarrow> string \<Rightarrow> string" where
  "formatTimeAgo clk ts =
     (case parse_date clk ts of
        None \<Rightarrow> ''just now''
      | Some time \<Rightarrow>
          (let diffInMs = now_ms clk - time;
               diffInMinutes = diffInMs div (1000 * 60);
               diffInHours = diffInMs div (1000 * 60 * 60);
               diffInDays = diffInMs div (1000 * 60 * 60 * 24)
           in if diffInDays > 0 then show_nat (nat diffInDays) @ ''d ago''
              else if diffInHours > 0 then show_nat (nat diffInHours) @ ''h ago''
              else if diffInMinutes > 0 then show_nat (nat diffInMinutes) @ ''m ago''
              else ''just now''))"

definition noHistory :: string where
  "noHistory = ''No previous conversation history.''"

text \<open>Reading \<open>lastMessage.timestamp\<close> raises a \<open>TypeError\<close> when the indexed read gave
  \<open>undefined\<close>; that branch is part of the model.\<close>

definition generateMemorySummary :: "MemoryService \<Rightarrow> Clock \<Rightarrow> string \<Rightarrow> js_error + string" where
  "generateMemorySummary svc clk sessionId =
     (case sessions svc sessionId of
        None \<Rightarrow> Inr noHistory
      | Some session \<Rightarrow>
          if length (messages session) = 0 then Inr noHistory
          else
            (let messageCount = length (messages session);
                 lastMessage = js_index (messages session) (int (length (messages session)) - 1);
                 userMessages = js_slice (filter (\<lambda>msg. role msg = User) (messages session)) (- 2);
                 summary = ''Session Info: '' @ show_nat messageCount @ '' total messages. '';
                 summary' =
                   (if length userMessages > 0
                    then summary @ ''Recent topics: '' @
                         js_join '', ''
                           (map (\<lambda>msg. ''\"'' @ js_substring (content msg) 0 100 @ ''...\"'')
                              userMessages)
                    else summary)
             in case lastMessage of
                  None \<Rightarrow> Inl (TypeError ''Cannot read properties of undefined'')
                | Some m \<Rightarrow>
                    Inr (summary' @ '' Last activity: '' @ formatTimeAgo clk (timestamp m))))"

text \<open>The messages a session holds; an absent session holds none.\<close>

definition storedMessages :: "MemoryService \<Rightarrow> string \<Rightarrow> Message list" where
  "storedMessages svc sessionId =
     (case sessions svc sessionId of None \<Rightarrow> [] | Some session \<Rightarrow> messages session)"

text \<open>A sequence of \<open>addMessage\<close> calls to one session, each at its own time.\<close>

fun appendAll :: "MemoryService \<Rightarrow> string \<Rightarrow> (Clock \<times> Message) list \<Rightarrow> MemoryService" where
  "appendAll svc sessionId [] = svc"
| "appendAll svc sessionId ((clk, message) # rest) =
     appendAll (addMessage svc clk sessionId message) sessionId rest"

section \<open>Plugin registry (\<open>services/plugin-registry.service.ts\<close>)\<close>

text \<open>The types of \<open>types/plugin.types\<close> as the services and the plugins use them. The
  fields \<open>data\<close> and \<open>metadata\<close> of a plugin result carry arbitrary payload that no
  code modelled here reads, and are left out.\<close>

record PluginContext =
  query :: string
  sessionId :: string
  userMessage :: string
  timestamp_ctx :: string

record PluginResult =
  success :: bool
  error :: "string option"
  formattedResponse :: "string option"
  message :: "string option"

record PluginExecutionResult =
  pluginName :: string
  result :: PluginResult
  executionTime :: int

text \<open>A call that may throw: \<open>canHandle\<close> is wrapped in \<open>try/catch\<close> by the registry.\<close>

datatype 'a js_call = Returns 'a | Throws js_error

text \<open>What the promise of \<open>plugin.execute(context)\<close> has done when the timer of
  \<open>executeWithTimeout\<close> fires: it has resolved, it has rejected (a synchronous throw
  inside the promise executor rejects as well), or it is still pending.\<close>

datatype execution = Resolved PluginResult | Rejected js_error | Pending

record Plugin =
  name :: string
  description :: string
  version :: string
  canHandle :: "PluginContext \<Rightarrow> bool js_call"
  execute :: "PluginContext \<Rightarrow> execution"

text \<open>The registry is a \<open>Map\<close> from names to plugins, which iterates in insertion
  order: an association list. \<open>Map.set\<close> replaces the value of a present key in place and
  appends an absent one.\<close>

type_synonym CorePluginRegistry = "(string \<times> Plugin) list"

definition register :: "CorePluginRegistry \<Rightarrow> Plugin \<Rightarrow> CorePluginRegistry" where
  "register plugins plugin = AList.update (name plugin) plugin plugins"

definition unregister :: "CorePluginRegistry \<Rightarrow> string \<Rightarrow> CorePluginRegistry \<times> bool" where
  "unregister plugins n =
     (let existed = (map_of plugins n \<noteq> None)
      in if existed then (AList.delete n plugins, existed) else (plugins, existed))"

definition getPlugin :: "CorePluginRegistry \<Rightarrow> string \<Rightarrow> Plugin option" where
  "getPlugin plugins n = map_of plugins n"

definition getAllPlugins :: "CorePluginRegistry \<Rightarrow> Plugin list" where
  "getAllPlugins plugins = map snd plugins"

definition findApplicablePlugins :: "CorePluginRegistry \<Rightarrow> PluginContext \<Rightarrow> Plugin list" where
  "findApplicablePlugins plugins ctx =
     filter (\<lambda>plugin. case canHandle plugin ctx of Returns b \<Rightarrow> b | Throws e \<Rightarrow> False)
       (map snd plugins)"

text \<open>The registries that \<open>register\<close> and \<open>unregister\<close> can produce: one entry per key,
  each plugin stored under its own name.\<close>

definition registered :: "CorePluginRegistry \<Rightarrow> bool" where
  "registered plugins =
     (distinct (map fst plugins) \<and> list_all (\<lambda>(k, plugin). k = name plugin) plugins)"

section \<open>Plugin execution (\<open>services/plugin-execution.service.ts\<close>)\<close>

definition defaultTimeout :: nat where
  "defaultTimeout = 20000"

fun instanceofError :: "js_error \<Rightarrow> bool" where
  "instanceofError (NonError v) = False"
| "instanceofError e = True"

fun error_message :: "js_error \<Rightarrow> string" where
  "error_message (TypeError m) = m"
| "error_message (Error m) = m"
| "error_message (ApiError m status code) = m"
| "error_message (NonError v) = ''undefined''"

text \<open>\<open>String(e)\<close>, as a template literal prints a rejection reason.\<close>

fun js_String :: "js_error \<Rightarrow> string" where
  "js_String (TypeError m) = ''TypeError: '' @ m"
| "js_String (Error m) = ''Error: '' @ m"
| "js_String (ApiError m status code) = ''ApiError: '' @ m"
| "js_String (NonError v) = v"

text \<open>The promise of \<open>executeWithTimeout\<close>: \<open>Inr\<close> when it resolves, \<open>Inl\<close> when it
  rejects.\<close>

definition executeWithTimeout :: "Plugin \<Rightarrow> PluginContext \<Rightarrow> nat \<Rightarrow> js_error + PluginResult" where
  "executeWithTimeout plugin ctx timeout =
     (case execute plugin ctx of
        Resolved r \<Rightarrow> Inr r
      | Rejected e \<Rightarrow> Inl e
      | Pending \<Rightarrow>
          Inl (Error (''Plugin '' @ name plugin @ '' execution timed out after '' @
                      show_nat timeout @ ''ms'')))"

text \<open>\<open>startTime\<close> and \<open>endTime\<close> are the two readings of \<open>Date.now()\<close>: on entry, and
  when the returned object is built.\<close>

definition executePlugin ::
    "CorePluginRegistry \<Rightarrow> string \<Rightarrow> PluginContext \<Rightarrow> int \<Rightarrow> int \<Rightarrow> js_error + PluginExecutionResult" where
  "executePlugin registry n ctx startTime endTime =
     (case getPlugin registry n of
        None \<Rightarrow>
          Inr \<lparr>pluginName = n,
               result = \<lparr>success = False,
                          error = Some (''Plugin '' @ [CHR 0x27] @ n @ [CHR 0x27] @ '' not found''),
                          formattedResponse = None, message = None\<rparr>,
               executionTime = endTime - startTime\<rparr>
      | Some plugin \<Rightarrow>
          (case executeWithTimeout plugin ctx defaultTimeout of
             Inr r \<Rightarrow> Inr \<lparr>pluginName = n, result = r, executionTime = endTime - startTime\<rparr>
           | Inl e \<Rightarrow>
               Inr \<lparr>pluginName = n,
                    result = \<lparr>success = False,
                               error = Some (if instanceofError e then error_message e
                                             else ''Unknown error''),
                               formattedResponse = None, message = None\<rparr>,
                    executionTime = endTime - startTime\<rparr>))"

text \<open>All promises are started, \<open>Promise.allSettled\<close> waits for every one of them and
  keeps their order; \<open>readings\<close> gives the two clock readings of each call.\<close>

definition executeApplicablePlugins ::
    "CorePluginRegistry \<Rightarrow> PluginContext \<Rightarrow> (string \<Rightarrow> int \<times> int) \<Rightarrow> PluginExecutionResult list" where
  "executeApplicablePlugins registry ctx readings =
     (let applicablePlugins = findApplicablePlugins registry ctx
      in if length applicablePlugins = 0 then []
         else
           map (\<lambda>plugin.
                  case executePlugin registry (name plugin) ctx
                         (fst (readings (name plugin))) (snd (readings (name plugin))) of
                    Inr v \<Rightarrow> v
                  | Inl reason \<Rightarrow>
                      \<lparr>pluginName = name plugin,
                       result = \<lparr>success = False,
                                  error = Some (''Plugin execution promise rejected: '' @
                                                js_String reason),
                                  formattedResponse = None, message = None\<rparr>,
                       executionTime = 0\<rparr>)
               applicablePlugins)"

section \<open>Prompt service (\<open>services/prompt.service.ts\<close>)\<close>



text \<open>The number literal \<open>0.7\<close> is the double nearest to seven tenths. Comparing two
  doubles is exact, so a double is modelled by the real number it denotes.\<close>

definition js_0_7 :: real where
  "js_0_7 = 3152519739159347 / 4503599627370496"

text \<open>\<open>a || b\<close> on optional strings (the empty string and \<open>undefined\<close> are falsy), and a
  template literal printing the outcome.\<close>

definition truthy :: "string option \<Rightarrow> bool" where
  "truthy v = (case v of None \<Rightarrow> False | Some s \<Rightarrow> s \<noteq> [])"

definition js_or :: "string option \<Rightarrow> string option \<Rightarrow> string option" where
  "js_or a b = (if truthy a then a else b)"

definition js_print :: "string option \<Rightarrow> string" where
  "js_print v = (case v of None \<Rightarrow> ''undefined'' | Some s \<Rightarrow> s)"

text \<open>\<open>xs.map((x, idx) => `${idx + 1}. ${x}`).join('\n')\<close>.\<close>

definition numbered :: "string list \<Rightarrow> string" where
  "numbered xs =
     js_join ''\<newline>''
       (map (\<lambda>(x, idx). show_nat (idx + 1) @ ''. '' @ x) (zip xs [0..<length xs]))"


definition generateRAGPrompt :: "string \<Rightarrow> string \<Rightarrow> string list option \<Rightarrow> string" where
  "generateRAGPrompt q ctxText sources =
     ''You are an expert AI assistant with access to a comprehensive '' @
     ''knowledge base. Your role is to provide accurate, detailed, and '' @
     ''contextually relevant answers using the provided information.\<newline>'' @
     ''\<newline>'' @
     ''## Instructions:\<newline>'' @
     ''1. **Primary Source**: Use the provided context as your primary '' @
     ''information source\<newline>'' @
     ''2. **Accuracy**: Ensure all information is factually correct and '' @
     ''up-to-date\<newline>'' @
     ''3. **Citations**: Always reference the source documents when using '' @
     ''information from the context\<newline>'' @
     ''4. **Completeness**: Provide comprehensive answers that fully address '' @
     ''the user's question\<newline>'' @
     ''5. **Clarity**: Structure your response clearly with proper '' @
     ''formatting when helpful\<newline>'' @
     ''\<newline>'' @
     ''## Available Context:\<newline>'' @
     ctxText @
     ''\<newline>'' @
     ''\<newline>'' @
     (case sources of
        None \<Rightarrow> []
      | Some srcs \<Rightarrow>
          if length srcs > 0 then ''\<newline>'' @ ''## Sources:\<newline>'' @ numbered srcs
          else []) @
     ''\<newline>'' @
     ''\<newline>'' @
     ''## User Question:\<newline>'' @
     q @
     ''\<newline>'' @
     ''\<newline>'' @
     ''## Response:\<newline>'' @
     ''Provide a comprehensive answer using the context above. If the '' @
     ''context doesn't contain sufficient information, clearly state what's '' @
     ''missing and provide what you can from the available information.''"














section \<open>Retrieval (\<open>services/rag.service.ts\<close>, \<open>services/pinecone.service.ts\<close>)\<close>

record Metadata =
  source :: "string option"
  title :: "string option"
  chunkIndex :: "nat option"
  totalChunks :: "nat option"

record SearchResult =
  content_sr :: string
  score :: real
  metadata :: Metadata

record RAGContext =
  relevantDocuments :: "SearchResult list"
  query_rc :: string
  contextualPrompt :: string

record RAGResponse =
  response :: string
  context_rr :: RAGContext
  sources_rr :: "string list"

record LLMRequest =
  messages_req :: "Message list"
  system_prompt :: "string option"
  max_tokens :: "nat option"
  temperature :: "real option"

record LLMResponse =
  content_resp :: string
  usage :: "(nat \<times> nat \<times> nat) option"

definition buildPrompt :: "string \<Rightarrow> string \<Rightarrow> string" where
  "buildPrompt q ctxText = generateRAGPrompt q ctxText None"

definition createContext :: "SearchResult list \<Rightarrow> string \<Rightarrow> RAGContext" where
  "createContext documents q =
     (let contextDocuments = filter (\<lambda>doc. score doc > js_0_7) documents;
          contextText =
            (if length contextDocuments > 0 then
               js_join ''\<newline>---\<newline>\<newline>''
                 (map (\<lambda>(doc, index).
                         ''[Source '' @ show_nat (index + 1) @ '': '' @
                         js_print (js_or (title (metadata doc)) (source (metadata doc))) @
                         '']\<newline>'' @ content_sr doc @ ''\<newline>'')
                    (zip contextDocuments [0..<length contextDocuments]))
             else []);
          prompt = buildPrompt q contextText
      in \<lparr>relevantDocuments = contextDocuments, query_rc = q, contextualPrompt = prompt\<rparr>)"

text \<open>A \<open>Set\<close> keeps the order of first insertion. \<open>addSource\<close> is the callback of
  the \<open>forEach\<close>: it adds the source of a match when there is one.\<close>

definition addSource :: "string list \<Rightarrow> SearchResult \<Rightarrow> string list" where
  "addSource sources doc =
     (if truthy (source (metadata doc)) \<and> js_print (source (metadata doc)) \<notin> set sources
      then sources @ [js_print (source (metadata doc))] else sources)"

definition extractSources :: "SearchResult list \<Rightarrow> string list" where
  "extractSources documents = foldl addSource [] documents"

text \<open>The collaborators behind the services: what \<open>RAGService.initialize\<close> does when it
  runs (\<open>None\<close> when it succeeds), the similarity search of the index (which embeds the
  query first), and the completion service. Each may fail. Every call made is logged.\<close>

record Collaborators =
  initialize :: "js_error option"
  searchSimilar :: "string \<Rightarrow> int \<Rightarrow> js_error + SearchResult list"
  openaiGenerateResponse :: "LLMRequest \<Rightarrow> js_error + LLMResponse"

datatype collaborator_call =
  Initialize
| SearchSimilar string int
| Completion LLMRequest

record RAGService =
  isInitialized :: bool

definition contextualRequest :: "Clock \<Rightarrow> RAGContext \<Rightarrow> LLMRequest" where
  "contextualRequest clk rc =
     \<lparr>messages_req = [\<lparr>role = User, content = contextualPrompt rc, timestamp = now_iso clk\<rparr>],
      system_prompt = None, max_tokens = None, temperature = None\<rparr>"

definition generateContextualResponse ::
    "Collaborators \<Rightarrow> Clock \<Rightarrow> RAGContext \<Rightarrow> js_error + string" where
  "generateContextualResponse col clk rc =
     (case openaiGenerateResponse col (contextualRequest clk rc) of
        Inl e \<Rightarrow> Inl e
      | Inr r \<Rightarrow> Inr (content_resp r))"

text \<open>The result is the state of the service, the calls made, and the settled promise.
  Any failure is logged and thrown again.\<close>

definition generateResponse ::
    "Collaborators \<Rightarrow> Clock \<Rightarrow> RAGService \<Rightarrow> string \<Rightarrow> int \<Rightarrow>
       RAGService \<times> collaborator_call list \<times> (js_error + RAGResponse)" where
  "generateResponse col clk rag q topK =
     (let (rag1, calls1, failed) =
            (if isInitialized rag then (rag, [], None)
             else (case initialize col of
                     None \<Rightarrow> (rag\<lparr>isInitialized := True\<rparr>, [Initialize], None)
                   | Some e \<Rightarrow> (rag, [Initialize], Some e)))
      in case failed of
           Some e \<Rightarrow> (rag1, calls1, Inl e)
         | None \<Rightarrow>
             (case searchSimilar col q topK of
                Inl e \<Rightarrow> (rag1, calls1 @ [SearchSimilar q topK], Inl e)
              | Inr documents \<Rightarrow>
                  (let rc = createContext documents q;
                       calls2 = calls1 @ [SearchSimilar q topK, Completion (contextualRequest clk rc)]
                   in case generateContextualResponse col clk rc of
                        Inl e \<Rightarrow> (rag1, calls2, Inl e)
                      | Inr r \<Rightarrow>
                          (rag1, calls2,
                           Inr \<lparr>response = r, context_rr = rc,
                                sources_rr = extractSources documents\<rparr>))))"

section \<open>Chunking (\<open>chunkText\<close> of \<open>services/pinecone.service.ts\<close>)\<close>

text \<open>White space as \<open>trim\<close> and the class \<open>\s\<close> see it, among the code units below
  256: tab, line feed, vertical tab, form feed, carriage return, space and the
  no-break space.\<close>

definition is_space :: "char \<Rightarrow> bool" where
  "is_space c = (of_char c \<in> {9, 10, 11, 12, 13, 32, 160 :: nat})"

definition js_trim :: "string \<Rightarrow> string" where
  "js_trim s = rev (dropWhile is_space (rev (dropWhile is_space s)))"

text \<open>\<open>s.lastIndexOf(sub)\<close>: the largest index at which \<open>sub\<close> starts, or \<open>-1\<close>.
  The scan runs from the left and remembers the last index found.\<close>

fun lastIndexFrom :: "string \<Rightarrow> string \<Rightarrow> nat \<Rightarrow> int \<Rightarrow> int" where
  "lastIndexFrom [] sub i found = (if sub = [] then int i else found)"
| "lastIndexFrom (c # cs) sub i found =
     lastIndexFrom cs sub (Suc i) (if prefix sub (c # cs) then int i else found)"

definition js_lastIndexOf :: "string \<Rightarrow> string \<Rightarrow> int" where
  "js_lastIndexOf s sub = lastIndexFrom s sub 0 (- 1)"

text \<open>One iteration of the loop looks at the window from \<open>currentPosition\<close> to
  \<open>endPosition\<close> and pushes one chunk; the three are recorded together.\<close>

record Window =
  currentPosition :: int
  endPosition :: int
  chunk :: string

text \<open>The chunk taken from a window: cut after the last sentence end when that lies in
  the back half (\<open>chunk.length * 0.5\<close> is exact in double precision), then trimmed.\<close>

definition windowChunk :: "string \<Rightarrow> int \<Rightarrow> int \<Rightarrow> string" where
  "windowChunk text cur endPos =
     (let c = js_substring text cur endPos;
          c' = (if endPos < int (length text) then
                  (let lastSentenceEnd =
                         max (max (js_lastIndexOf c ''. '') (js_lastIndexOf c ''! ''))
                             (js_lastIndexOf c ''? '')
                   in if 2 * lastSentenceEnd > int (length c)
                      then js_substring c 0 (lastSentenceEnd + 1) else c)
                else c)
      in js_trim c')"

text \<open>The position after a window that is not the last.\<close>

definition nextPosition :: "int \<Rightarrow> string \<Rightarrow> int \<Rightarrow> int" where
  "nextPosition endPos lastChunk overlap =
     (let cur = endPos - overlap
      in if cur \<le> int (length lastChunk) - overlap then endPos else cur)"

text \<open>The \<open>while\<close> loop. Nothing in the code bounds the number of iterations (with an
  overlap as large as the window the position does not advance), so the model counts
  them down from \<open>fuel\<close> and answers \<open>None\<close> when they run out.\<close>

fun chunkLoop :: "nat \<Rightarrow> string \<Rightarrow> int \<Rightarrow> int \<Rightarrow> int \<Rightarrow> Window list \<Rightarrow> Window list option" where
  "chunkLoop 0 text maxChunkSize overlap cur windows = None"
| "chunkLoop (Suc fuel) text maxChunkSize overlap cur windows =
     (if \<not> cur < int (length text) then Some windows
      else
        (let endPos = min (cur + maxChunkSize) (int (length text));
             c = windowChunk text cur endPos;
             windows' = windows @ [\<lparr>currentPosition = cur, endPosition = endPos, chunk = c\<rparr>]
         in if endPos \<ge> int (length text) then Some windows'
            else chunkLoop fuel text maxChunkSize overlap (nextPosition endPos c overlap) windows'))"

definition chunkWindows :: "nat \<Rightarrow> string \<Rightarrow> int \<Rightarrow> int \<Rightarrow> Window list option" where
  "chunkWindows fuel text maxChunkSize overlap = chunkLoop fuel text maxChunkSize overlap 0 []"

definition chunkText :: "nat \<Rightarrow> string \<Rightarrow> int \<Rightarrow> int \<Rightarrow> string list option" where
  "chunkText fuel text maxChunkSize overlap =
     map_option (\<lambda>windows. filter (\<lambda>c. length c > 50) (map chunk windows))
       (chunkWindows fuel text maxChunkSize overlap)"

section \<open>Agent controller (\<open>controllers/agent.controller.ts\<close>)\<close>

text \<open>\<open>toLowerCase\<close> on the code units below 256: the letters A to Z and the accented
  capitals move up by 32.\<close>

definition js_lower :: "char \<Rightarrow> char" where
  "js_lower c =
     (let n = (of_char c :: nat)
      in if (65 \<le> n \<and> n \<le> 90) \<or> (192 \<le> n \<and> n \<le> 222 \<and> n \<noteq> 215)
         then char_of (n + 32) else c)"

definition js_toLowerCase :: "string \<Rightarrow> string" where
  "js_toLowerCase s = map js_lower s"

text \<open>The regular expressions of \<open>shouldUseRAG\<close> use literals (matched without regard
  to case), the classes \<open>\s\<close> and \<open>\w\<close> under \<open>+\<close> and \<open>*\<close>, alternatives and one
  optional group. \<open>rx_match r s\<close> lists what is left of \<open>s\<close> after each way \<open>r\<close> can
  match at its start, and \<open>rx_test\<close> is \<open>RegExp.prototype.test\<close>: a match at some
  position.\<close>

datatype rx =
  Eps
| Chr "char \<Rightarrow> bool"
| Many "char \<Rightarrow> bool"
| Cat rx rx
| Alt rx rx

fun rx_match :: "rx \<Rightarrow> string \<Rightarrow> string list" where
  "rx_match Eps s = [s]"
| "rx_match (Chr p) [] = []"
| "rx_match (Chr p) (c # cs) = (if p c then [cs] else [])"
| "rx_match (Many p) [] = [[]]"
| "rx_match (Many p) (c # cs) = (if p c then rx_match (Many p) cs @ [c # cs] else [c # cs])"
| "rx_match (Cat a b) s = concat (map (rx_match b) (rx_match a s))"
| "rx_match (Alt a b) s = rx_match a s @ rx_match b s"

fun rx_test :: "rx \<Rightarrow> string \<Rightarrow> bool" where
  "rx_test r [] = (rx_match r [] \<noteq> [])"
| "rx_test r (c # cs) = (rx_match r (c # cs) \<noteq> [] \<or> rx_test r cs)"

definition is_word :: "char \<Rightarrow> bool" where
  "is_word c =
     (let n = (of_char c :: nat)
      in (48 \<le> n \<and> n \<le> 57) \<or> (65 \<le> n \<and> n \<le> 90) \<or> n = 95 \<or> (97 \<le> n \<and> n \<le> 122))"

fun lit :: "string \<Rightarrow> rx" where
  "lit [] = Eps"
| "lit (c # cs) = Cat (Chr (\<lambda>x. js_lower x = c)) (lit cs)"

fun alts :: "string list \<Rightarrow> rx" where
  "alts [] = Chr (\<lambda>x. False)"
| "alts [w] = lit w"
| "alts (w # ws) = Alt (lit w) (alts ws)"

definition spaces1 :: rx where
  "spaces1 = Cat (Chr is_space) (Many is_space)"

definition word1 :: rx where
  "word1 = Cat (Chr is_word) (Many is_word)"

definition ragKeywords :: "string list" where
  "ragKeywords =
     [''how to'', ''explain'', ''tutorial'', ''guide'', ''documentation'',
      ''example'', ''best practice'', ''implement'', ''create'', ''build'', ''setup'',
      ''configure'', ''install'', ''typescript'', ''express'', ''nodejs'', ''api'',
      ''database'', ''security'', ''authentication'', ''rest'', ''interface'',
      ''function'', ''class'', ''method'', ''variable'', ''import'', ''export'']"

definition ragPatterns :: "rx list" where
  "ragPatterns =
     [Cat (lit ''how'') (Cat spaces1 (Cat (alts [''to'', ''do'', ''can'']) (Cat spaces1 word1))),
      Cat (lit ''what'') (Cat spaces1 (Cat (lit ''is'') (Cat spaces1
        (alts [''typescript'', ''express'', ''nodejs'', ''javascript'', ''api'', ''database'',
               ''interface'', ''function'', ''class''])))),
      Cat (lit ''explain'') (Cat spaces1 word1),
      Cat (lit ''create'') (Cat spaces1 (Cat (Alt (alts [''a'', ''an'']) Eps) (Cat (Many is_space)
        (alts [''typescript'', ''express'', ''nodejs'', ''api'', ''interface'', ''function'',
               ''class''])))),
      Cat (lit ''implement'') (Cat spaces1 word1)]"

definition shouldUseRAG :: "string \<Rightarrow> bool" where
  "shouldUseRAG msg =
     (let lowerMessage = js_toLowerCase msg;
          hasKeyword = list_ex (\<lambda>keyword. js_includes lowerMessage keyword) ragKeywords;
          hasPattern = list_ex (\<lambda>pattern. rx_test pattern msg) ragPatterns
      in hasKeyword \<or> hasPattern)"

record AgentRequest =
  message_ar :: string
  session_id_ar :: string

record AgentResponse =
  reply :: string
  session_id :: string
  timestamp_resp :: string
  sources :: "string list"
  plugins_used :: "string list"

text \<open>The request body is taken as an object with two string fields; the checks on the
  types of the fields then pass, and the others are these.\<close>

definition validateRequest :: "AgentRequest \<Rightarrow> string option" where
  "validateRequest body =
     (if message_ar body = [] then Some ''Message is required''
      else if length (js_trim (message_ar body)) = 0 then Some ''Message cannot be empty''
      else if length (message_ar body) > 10000
        then Some ''Message is too long (max 10000 characters)''
      else if session_id_ar body = [] then Some ''Session ID is required''
      else if length (session_id_ar body) > 100
        then Some ''Session ID is too long (max 100 characters)''
      else None)"

definition generateSystemPrompt_agent :: "string \<Rightarrow> string" where
  "generateSystemPrompt_agent summary =
     ''You are an intelligent AI assistant with access to conversation '' @
     ''history and specialized tools.\<newline>'' @
     ''\<newline>'' @
     ''## Your Role\<newline>'' @
     ''- Provide helpful, accurate, and engaging responses\<newline>'' @
     ''- Maintain context from previous conversations\<newline>'' @
     ''- Use tools and plugins when appropriate to enhance your responses\<newline>'' @
     ''- Be conversational but professional\<newline>'' @
     ''\<newline>'' @
     ''## Memory Context\<newline>'' @
     summary @
     ''\<newline>'' @
     ''\<newline>'' @
     ''## Instructions\<newline>'' @
     ''1. Consider the conversation history when formulating responses\<newline>'' @
     ''2. If asked about weather, you can use weather data\<newline>'' @
     ''3. If asked about math calculations, you can compute accurate results\<newline>'' @
     ''4. Always aim to be helpful and informative\<newline>'' @
     ''5. If you're unsure about something, say so honestly\<newline>'' @
     ''\<newline>'' @
     ''Remember to maintain the conversation flow and reference previous '' @
     ''context when relevant.''"

record Services =
  memoryService :: MemoryService
  ragService :: RAGService
  pluginRegistry :: CorePluginRegistry

record Handled =
  services :: Services
  calls :: "collaborator_call list"
  outcome :: "js_error + AgentResponse"

definition pluginResponses :: "PluginExecutionResult list \<Rightarrow> string" where
  "pluginResponses successfulPlugins =
     js_join ''\<newline>\<newline>''
       (map (\<lambda>p. js_print (js_or (js_or (formattedResponse (result p)) (message (result p)))
                               (Some ''Plugin executed successfully'')))
          successfulPlugins)"

definition conversationalRequest :: "Message list \<Rightarrow> string \<Rightarrow> LLMRequest" where
  "conversationalRequest history systemPrompt =
     \<lparr>messages_req = history, system_prompt = Some systemPrompt,
      max_tokens = Some 1000, temperature = Some js_0_7\<rparr>"

text \<open>\<open>handleMessage\<close>: an error thrown anywhere is handed to \<open>next\<close> and is the outcome
  \<open>Inl\<close>; otherwise the response sent is the outcome \<open>Inr\<close>.\<close>

definition handleMessage ::
    "Collaborators \<Rightarrow> Clock \<Rightarrow> (string \<Rightarrow> int \<times> int) \<Rightarrow> Services \<Rightarrow> AgentRequest \<Rightarrow> Handled" where
  "handleMessage col clk readings svcs body =
     (case validateRequest body of
        Some err \<Rightarrow>
          \<lparr>services = svcs, calls = [], outcome = Inl (ApiError err 400 ''VALIDATION_ERROR'')\<rparr>
      | None \<Rightarrow>
          (let msg = message_ar body;
               sid = session_id_ar body;
               useRAG = shouldUseRAG msg;
               pluginContext = \<lparr>query = msg, sessionId = sid, userMessage = msg,
                                timestamp_ctx = now_iso clk\<rparr>;
               results = executeApplicablePlugins (pluginRegistry svcs) pluginContext readings;
               userMsg = \<lparr>role = User, content = msg, timestamp = now_iso clk\<rparr>;
               mem1 = addMessage (memoryService svcs) clk sid userMsg;
               history = getConversationContext mem1 sid 6
           in case generateMemorySummary mem1 clk sid of
                Inl e \<Rightarrow> \<lparr>services = svcs\<lparr>memoryService := mem1\<rparr>, calls = [], outcome = Inl e\<rparr>
              | Inr summary \<Rightarrow>
                  (let systemPrompt = generateSystemPrompt_agent summary;
                       successfulPlugins = filter (\<lambda>r. success (result r)) results;
                       (rag1, made, produced) =
                         (if length successfulPlugins > 0 then
                            (ragService svcs, [],
                             Inr (pluginResponses successfulPlugins, [],
                                  map pluginName successfulPlugins))
                          else if useRAG then
                            (case generateResponse col clk (ragService svcs) msg 3 of
                               (rag', cs, Inl e) \<Rightarrow> (rag', cs, Inl e)
                             | (rag', cs, Inr ragResponse) \<Rightarrow>
                                 (rag', cs, Inr (response ragResponse, sources_rr ragResponse, [])))
                          else
                            (let req = conversationalRequest history systemPrompt
                             in case openaiGenerateResponse col req of
                                  Inl e \<Rightarrow> (ragService svcs, [Completion req], Inl e)
                                | Inr r \<Rightarrow>
                                    (ragService svcs, [Completion req],
                                     Inr (content_resp r, [], []))))
                   in case produced of
                        Inl e \<Rightarrow>
                          \<lparr>services = svcs\<lparr>memoryService := mem1, ragService := rag1\<rparr>,
                           calls = made, outcome = Inl e\<rparr>
                      | Inr (text, srcs, pluginsUsed) \<Rightarrow>
                          (let assistantMessage =
                                 \<lparr>role = Assistant, content = text, timestamp = now_iso clk\<rparr>;
                               mem2 = addMessage mem1 clk sid assistantMessage
                           in \<lparr>services = svcs\<lparr>memoryService := mem2, ragService := rag1\<rparr>,
                               calls = made,
                               outcome = Inr \<lparr>reply = text, session_id = sid,
                                              timestamp_resp = now_iso clk, sources = srcs,
                                              plugins_used = pluginsUsed\<rparr>\<rparr>))))"

section \<open>Concrete inputs\<close>

text \<open>The inputs at which the theorems below are instantiated.\<close>

definition clock0 :: Clock where
  "clock0 = \<lparr>now_iso = ''2024-01-01T00:00:00.000Z'', now_ms = 1704067200000,
             parse_date = (\<lambda>s. if s = ''2024-01-01T00:00:00.000Z'' then Some 1704067200000 else None)\<rparr>"

definition hello :: Message where
  "hello = \<lparr>role = User, content = ''Hello'', timestamp = ''2024-01-01T00:00:00.000Z''\<rparr>"

definition emptySession :: MemoryService where
  "emptySession =
     \<lparr>sessions = [''s2'' \<mapsto> \<lparr>id_s = ''s2'', messages = [],
         created_at = ''2024-01-01T00:00:00.000Z'',
         last_activity = ''2024-01-01T00:00:00.000Z''\<rparr>]\<rparr>"

definition fullSession :: MemoryService where
  "fullSession =
     \<lparr>sessions = [''s3'' \<mapsto> \<lparr>id_s = ''s3'', messages = replicate 50 hello,
         created_at = ''2024-01-01T00:00:00.000Z'',
         last_activity = ''2024-01-01T00:00:00.000Z''\<rparr>]\<rparr>"

definition goodbye :: Message where
  "goodbye = \<lparr>role = Assistant, content = ''Goodbye'', timestamp = ''2024-01-02T00:00:00.000Z''\<rparr>"

definition context0 :: PluginContext where
  "context0 = \<lparr>query = ''Calculate 15 + 27'', sessionId = ''s1'',
                userMessage = ''Calculate 15 + 27'',
                timestamp_ctx = ''2024-01-01T00:00:00.000Z''\<rparr>"

definition quickResult :: PluginResult where
  "quickResult = \<lparr>success = True, error = None,
                   formattedResponse = Some ''15 + 27 = 42'', message = None\<rparr>"

definition quickPlugin :: Plugin where
  "quickPlugin = \<lparr>name = ''quick'', description = ''resolves at once'', version = ''1.0.0'',
                   canHandle = (\<lambda>ctx. Returns True),
                   execute = (\<lambda>ctx. Resolved quickResult)\<rparr>"

definition slowPlugin :: Plugin where
  "slowPlugin = \<lparr>name = ''slow'', description = ''never settles'', version = ''1.0.0'',
                  canHandle = (\<lambda>ctx. Returns True),
                  execute = (\<lambda>ctx. Pending)\<rparr>"

definition faultyPlugin :: Plugin where
  "faultyPlugin = \<lparr>name = ''faulty'', description = ''rejects'', version = ''1.0.0'',
                    canHandle = (\<lambda>ctx. Returns True),
                    execute = (\<lambda>ctx. Rejected (Error ''network down''))\<rparr>"

definition throwingPlugin :: Plugin where
  "throwingPlugin = \<lparr>name = ''throwing'', description = ''canHandle throws'',
                      version = ''1.0.0'',
                      canHandle = (\<lambda>ctx. Throws (TypeError ''query is undefined'')),
                      execute = (\<lambda>ctx. Resolved quickResult)\<rparr>"

definition registry0 :: CorePluginRegistry where
  "registry0 =
     register (register (register (register [] slowPlugin) quickPlugin) faultyPlugin)
       throwingPlugin"

definition readings0 :: "string \<Rightarrow> int \<times> int" where
  "readings0 n = (if n = ''slow'' then (1000, 21000) else (1000, 1003))"

definition guideDoc :: SearchResult where
  "guideDoc = \<lparr>content_sr = ''Use express.Router to group routes.'', score = 23 / 25,
               metadata = \<lparr>source = Some ''express-guide.md'', title = Some ''Express Guide'',
                            chunkIndex = Some 0, totalChunks = Some 4\<rparr>\<rparr>"

definition boundaryDoc :: SearchResult where
  "boundaryDoc = \<lparr>content_sr = ''REST resources are nouns.'', score = js_0_7,
               metadata = \<lparr>source = Some ''rest-api-design.md'', title = Some ''REST API Design'',
                            chunkIndex = Some 2, totalChunks = Some 3\<rparr>\<rparr>"

definition weakDoc :: SearchResult where
  "weakDoc = \<lparr>content_sr = ''Helmet sets security headers.'', score = 41 / 100,
               metadata = \<lparr>source = Some ''security-guide.md'', title = Some ''Security Guide'',
                            chunkIndex = Some 7, totalChunks = Some 9\<rparr>\<rparr>"

definition collaborators0 :: Collaborators where
  "collaborators0 =
     \<lparr>initialize = None,
      searchSimilar = (\<lambda>q topK. Inr [guideDoc, boundaryDoc, weakDoc]),
      openaiGenerateResponse =
        (\<lambda>req. Inr \<lparr>content_resp = ''Group the routes with express.Router.'', usage = None\<rparr>)\<rparr>"

definition ragResponse0 :: RAGResponse where
  "ragResponse0 =
     \<lparr>response = ''Group the routes with express.Router.'',
      context_rr = createContext [guideDoc, boundaryDoc, weakDoc] ''how to group routes'',
      sources_rr = [''express-guide.md'', ''rest-api-design.md'', ''security-guide.md'']\<rparr>"

definition newRAGService :: RAGService where
  "newRAGService = \<lparr>isInitialized = False\<rparr>"

definition pluginRequest :: AgentRequest where
  "pluginRequest = \<lparr>message_ar = ''Calculate 15 + 27'', session_id_ar = ''s1''\<rparr>"

definition ragRequest :: AgentRequest where
  "ragRequest = \<lparr>message_ar = ''how to group routes'', session_id_ar = ''s1''\<rparr>"

definition plainRequest :: AgentRequest where
  "plainRequest = \<lparr>message_ar = ''Hello there'', session_id_ar = ''s1''\<rparr>"

definition blankRequest :: AgentRequest where
  "blankRequest = \<lparr>message_ar = ''   '', session_id_ar = ''s1''\<rparr>"

definition services0 :: Services where
  "services0 = \<lparr>memoryService = newMemoryService, ragService = newRAGService,
                 pluginRegistry = registry0\<rparr>"

definition services1 :: Services where
  "services1 = \<lparr>memoryService = newMemoryService, ragService = newRAGService,
                 pluginRegistry = []\<rparr>"






definition sentences :: string where
  "sentences = ''One. Two is here. Three! And the rest of it goes on. End''"

section \<open>Properties of the memory service\<close>

lemma storedMessages_addMessage:
  "storedMessages (addMessage svc clk sid m) sid =
     (let pushed = storedMessages svc sid @ [stamp clk m]
      in drop (length pushed - maxMessagesPerSession) pushed)"
  by (auto simp: storedMessages_def addMessage_def getSession_def Let_def
           split: option.splits)

lemma keep_last_append:
  "drop (length (drop (length xs - c) xs @ ys) - c) (drop (length xs - c) xs @ ys)
     = drop (length (xs @ ys) - c) (xs @ ys)"
proof (cases "length xs \<le> c")
  case True
  then show ?thesis by simp
next
  case False
  then have "length xs - (length xs - c) = c" by simp
  then show ?thesis using False by (simp add: drop_append add.commute)
qed

lemma storedMessages_appendAll:
  assumes "length (storedMessages svc sid) \<le> maxMessagesPerSession"
  shows "storedMessages (appendAll svc sid appends) sid =
     (let all = storedMessages svc sid @ map (\<lambda>(clk, m). stamp clk m) appends
      in drop (length all - maxMessagesPerSession) all)"
  using assms
proof (induction appends arbitrary: svc)
  case Nil
  then show ?case by simp
next
  case (Cons c appends)
  obtain clk m where c: "c = (clk, m)" by (cases c)
  let ?svc = "addMessage svc clk sid m"
  let ?xs = "storedMessages svc sid @ [stamp clk m]"
  let ?ys = "map (\<lambda>(clk, m). stamp clk m) appends"
  have stored: "storedMessages ?svc sid = drop (length ?xs - maxMessagesPerSession) ?xs"
    by (simp add: storedMessages_addMessage Let_def)
  then have "length (storedMessages ?svc sid) \<le> maxMessagesPerSession"
    by simp
  then have "storedMessages (appendAll ?svc sid appends) sid =
      drop (length (storedMessages ?svc sid @ ?ys) - maxMessagesPerSession)
        (storedMessages ?svc sid @ ?ys)"
    using Cons.IH [of ?svc] by (simp add: Let_def)
  also have "\<dots> = drop (length (?xs @ ?ys) - maxMessagesPerSession) (?xs @ ?ys)"
    unfolding stored by (rule keep_last_append)
  finally show ?case by (simp add: c Let_def)
qed

lemma js_slice_last:
  "0 < n \<Longrightarrow> js_slice xs (- n) = drop (length xs - nat n) xs"
  by (auto simp: js_slice_def Let_def max_def nat_diff_distrib intro: arg_cong [where f = "\<lambda>k. drop k xs"])

lemma recent_window_positive:
  assumes "sessions svc sid = None" and "0 < n"
  shows "getRecentMessages (appendAll svc sid appends) sid n =
     (let all = map (\<lambda>(clk, m). stamp clk m) appends
      in drop (length all - min (nat n) (min (length all) maxMessagesPerSession)) all)"
proof -
  have "storedMessages svc sid = []" using assms(1) by (simp add: storedMessages_def)
  then have st: "storedMessages (appendAll svc sid appends) sid =
      drop (length appends - maxMessagesPerSession) (map (\<lambda>(clk, m). stamp clk m) appends)"
    using storedMessages_appendAll [of svc sid appends] by (simp add: Let_def)
  have "getRecentMessages (appendAll svc sid appends) sid n =
      js_slice (storedMessages (appendAll svc sid appends) sid) (- n)"
    by (simp add: getRecentMessages_def storedMessages_def js_slice_def split: option.splits)
  then show ?thesis using assms(2)
    by (simp add: st js_slice_last Let_def min_def)
qed

text \<open>
  Claim C4. After every \<open>addMessage\<close> the session holds at most 50 messages, whatever
  it held before. When it already held 50 or more, it holds exactly 50 afterwards: the
  last 50 of the old messages followed by the new one, so the oldest go first. A session
  that starts absent holds, after any sequence of appends, the last 50 of the appended
  messages in their order.
\<close>

theorem addMessage_cap:
  "length (storedMessages (addMessage svc clk sid m) sid) \<le> maxMessagesPerSession \<and>
   (maxMessagesPerSession \<le> length (storedMessages svc sid) \<longrightarrow>
      length (storedMessages (addMessage svc clk sid m) sid) = maxMessagesPerSession \<and>
      storedMessages (addMessage svc clk sid m) sid =
        drop (length (storedMessages svc sid) + 1 - maxMessagesPerSession)
          (storedMessages svc sid @ [stamp clk m])) \<and>
   (sessions svc sid = None \<longrightarrow>
      storedMessages (appendAll svc sid appends) sid =
        drop (length appends - maxMessagesPerSession)
          (map (\<lambda>(clk, m). stamp clk m) appends))"
proof (intro conjI impI)
  show "length (storedMessages (addMessage svc clk sid m) sid) \<le> maxMessagesPerSession"
    by (simp add: storedMessages_addMessage Let_def)
next
  assume "maxMessagesPerSession \<le> length (storedMessages svc sid)"
  then show "length (storedMessages (addMessage svc clk sid m) sid) = maxMessagesPerSession"
    by (simp add: storedMessages_addMessage Let_def maxMessagesPerSession_def)
next
  show "storedMessages (addMessage svc clk sid m) sid =
        drop (length (storedMessages svc sid) + 1 - maxMessagesPerSession)
          (storedMessages svc sid @ [stamp clk m])"
    by (simp add: storedMessages_addMessage Let_def)
next
  assume "sessions svc sid = None"
  then have "storedMessages svc sid = []" by (simp add: storedMessages_def)
  then show "storedMessages (appendAll svc sid appends) sid =
        drop (length appends - maxMessagesPerSession)
          (map (\<lambda>(clk, m). stamp clk m) appends)"
    using storedMessages_appendAll [of svc sid appends] by (simp add: Let_def)
qed

theorem addMessage_cap_witness:
  "maxMessagesPerSession \<le> length (storedMessages fullSession ''s3'') \<and>
   length (storedMessages (addMessage fullSession clock0 ''s3'' goodbye) ''s3'') = 50 \<and>
   storedMessages (addMessage fullSession clock0 ''s3'' goodbye) ''s3'' =
     replicate 49 hello @ [goodbye] \<and>
   sessions newMemoryService ''s1'' = None \<and>
   storedMessages (appendAll newMemoryService ''s1'' [(clock0, hello), (clock0, goodbye)]) ''s1'' =
     [hello, goodbye]"
proof -
  have st: "storedMessages fullSession ''s3'' = replicate 50 hello"
    by (simp add: storedMessages_def fullSession_def)
  have sg: "stamp clock0 goodbye = goodbye" and sh: "stamp clock0 hello = hello"
    by (simp_all add: stamp_def goodbye_def hello_def)
  have none: "sessions newMemoryService ''s1'' = None"
    by (simp add: newMemoryService_def)
  show ?thesis
    using addMessage_cap [of fullSession clock0 "''s3''" goodbye "[]"]
    using addMessage_cap [of newMemoryService clock0 "''s1''" goodbye
        "[(clock0, hello), (clock0, goodbye)]"]
    by (simp add: st sg sh none maxMessagesPerSession_def)
qed

text \<open>
  Claim C3. \<open>getRecentMessages\<close> comments its result as the last \<open>limit\<close> messages and
  computes \<open>slice(-limit)\<close>. For a positive \<open>limit\<close> that is the window the claim
  describes (lemma \<open>recent_window_positive\<close>). For \<open>limit = 0\<close> the argument is \<open>-0\<close>,
  which \<open>slice\<close> reads as position 0: after one append the call returns that message,
  where the last \<open>min(0, 1, 50) = 0\<close> messages are none.
\<close>

theorem getRecentMessages_zero_limit:
  "getRecentMessages (addMessage newMemoryService clock0 ''s1'' hello) ''s1'' 0 = [hello]"
  by (simp add: getRecentMessages_def addMessage_def getSession_def newMemoryService_def
        js_slice_def stamp_def hello_def maxMessagesPerSession_def Let_def)

lemma js_index_last: "xs \<noteq> [] \<Longrightarrow> js_index xs (int (length xs) - 1) = Some (last xs)"
  by (cases xs rule: rev_cases) (auto simp: js_index_def nth_append)

text \<open>
  Claim C8. \<open>generateMemorySummary\<close> returns a string for every state of the service and
  every session id: no branch of it raises. For an absent session and for a session
  without messages the string is the fixed sentence \<open>noHistory\<close>.
\<close>

theorem generateMemorySummary_never_fails:
  "(\<exists>s. generateMemorySummary svc clk sid = Inr s) \<and>
   (sessions svc sid = None \<longrightarrow> generateMemorySummary svc clk sid = Inr noHistory) \<and>
   (\<forall>session. sessions svc sid = Some session \<and> messages session = [] \<longrightarrow>
      generateMemorySummary svc clk sid = Inr noHistory)"
proof (intro conjI allI impI)
  show "\<exists>s. generateMemorySummary svc clk sid = Inr s"
  proof (cases "sessions svc sid")
    case None
    then show ?thesis by (simp add: generateMemorySummary_def)
  next
    case (Some session)
    show ?thesis
    proof (cases "messages session = []")
      case True
      with Some show ?thesis by (simp add: generateMemorySummary_def)
    next
      case False
      with Some show ?thesis
        by (simp add: generateMemorySummary_def Let_def js_index_last)
    qed
  qed
next
  assume "sessions svc sid = None"
  then show "generateMemorySummary svc clk sid = Inr noHistory"
    by (simp add: generateMemorySummary_def)
next
  fix session
  assume "sessions svc sid = Some session \<and> messages session = []"
  then show "generateMemorySummary svc clk sid = Inr noHistory"
    by (simp add: generateMemorySummary_def)
qed

theorem generateMemorySummary_never_fails_witness:
  "sessions newMemoryService ''s1'' = None \<and>
   generateMemorySummary newMemoryService clock0 ''s1'' = Inr noHistory \<and>
   (\<exists>session. sessions emptySession ''s2'' = Some session \<and> messages session = []) \<and>
   generateMemorySummary emptySession clock0 ''s2'' = Inr noHistory \<and>
   (\<exists>s. generateMemorySummary (addMessage newMemoryService clock0 ''s1'' hello) clock0 ''s1'' = Inr s)"
  using generateMemorySummary_never_fails [of newMemoryService clock0 "''s1''"]
        generateMemorySummary_never_fails [of emptySession clock0 "''s2''"]
        generateMemorySummary_never_fails
          [of "addMessage newMemoryService clock0 ''s1'' hello" clock0 "''s1''"]
  by (simp add: newMemoryService_def emptySession_def)

section \<open>Properties of the plugin registry and of plugin execution\<close>

lemma registered_empty: "registered []"
  by (simp add: registered_def)

lemma list_all_update:
  "list_all P al \<Longrightarrow> P (k, v) \<Longrightarrow> list_all P (AList.update k v al)"
  by (induction al) auto

lemma registered_register: "registered plugins \<Longrightarrow> registered (register plugins plugin)"
  by (simp add: registered_def register_def distinct_update list_all_update)

lemma registered_unregister:
  assumes "registered plugins"
  shows "registered (fst (unregister plugins n))"
proof -
  have "distinct (map fst (AList.delete n plugins))"
    using assms by (simp add: registered_def AList.distinct_delete)
  moreover have "list_all (\<lambda>(k, plugin). k = name plugin) (AList.delete n plugins)"
    using assms by (simp add: registered_def AList.delete_eq list_all_iff)
  ultimately show ?thesis
    using assms by (simp add: unregister_def Let_def registered_def)
qed

lemma registered_lookup:
  assumes "registered plugins" and "plugin \<in> set (map snd plugins)"
  shows "getPlugin plugins (name plugin) = Some plugin"
proof -
  from assms(2) obtain k where k: "(k, plugin) \<in> set plugins" by auto
  with assms(1) have "k = name plugin"
    by (auto simp: registered_def list_all_iff)
  with k assms(1) show ?thesis
    by (simp add: registered_def getPlugin_def)
qed

lemma registered_names_distinct:
  assumes "registered plugins"
  shows "distinct (map name (map snd plugins))"
proof -
  have eq: "map (name \<circ> snd) plugins = map fst plugins"
    using assms by (induction plugins) (auto simp: registered_def)
  have d: "distinct (map fst plugins)"
    using assms by (simp add: registered_def)
  show ?thesis unfolding map_map eq by (rule d)
qed

lemma executePlugin_fulfils:
  "\<exists>v. executePlugin registry n ctx s e = Inr v"
  by (simp add: executePlugin_def split: option.splits sum.splits)

text \<open>
  Claim C2. \<open>executeApplicablePlugins\<close> returns one result per applicable plugin, in
  the order of the applicable plugins and under their names, whatever the plugins do. In
  a registry as \<open>register\<close> builds it the names are distinct, and the result at each
  position depends on that plugin's execution alone: the plugin's own result when its
  promise resolved; a result with \<open>success = false\<close> and an error text when it rejected
  or was still pending when the timer fired.
\<close>

theorem executeApplicablePlugins_collects_all:
  "length (executeApplicablePlugins registry ctx readings) =
     length (findApplicablePlugins registry ctx) \<and>
   map pluginName (executeApplicablePlugins registry ctx readings) =
     map name (findApplicablePlugins registry ctx) \<and>
   (registered registry \<longrightarrow>
      distinct (map pluginName (executeApplicablePlugins registry ctx readings)) \<and>
      (\<forall>i < length (findApplicablePlugins registry ctx).
         (case execute (findApplicablePlugins registry ctx ! i) ctx of
            Resolved r \<Rightarrow>
              result (executeApplicablePlugins registry ctx readings ! i) = r
          | Rejected e \<Rightarrow>
              \<not> success (result (executeApplicablePlugins registry ctx readings ! i)) \<and>
              error (result (executeApplicablePlugins registry ctx readings ! i)) \<noteq> None
          | Pending \<Rightarrow>
              \<not> success (result (executeApplicablePlugins registry ctx readings ! i)) \<and>
              error (result (executeApplicablePlugins registry ctx readings ! i)) \<noteq> None)))"
proof (intro conjI impI allI)
  show len: "length (executeApplicablePlugins registry ctx readings) =
     length (findApplicablePlugins registry ctx)"
    by (simp add: executeApplicablePlugins_def Let_def)
  have name_of: "pluginName (case executePlugin registry n ctx s e of
        Inr v \<Rightarrow> v | Inl reason \<Rightarrow> d reason) = n" for n s e d
    by (simp add: executePlugin_def split: option.splits sum.splits)
  show names: "map pluginName (executeApplicablePlugins registry ctx readings) =
     map name (findApplicablePlugins registry ctx)"
    by (simp add: executeApplicablePlugins_def Let_def name_of)
  {
    assume reg: "registered registry"
    have "distinct (map name (filter P (map snd registry)))" for P
      using registered_names_distinct [OF reg] by (simp add: distinct_map_filter)
    then show "distinct (map pluginName (executeApplicablePlugins registry ctx readings))"
      unfolding names by (simp add: findApplicablePlugins_def)
  }
  {
    fix i
    assume reg: "registered registry"
      and i: "i < length (findApplicablePlugins registry ctx)"
    let ?p = "findApplicablePlugins registry ctx ! i"
    have "?p \<in> set (findApplicablePlugins registry ctx)" using i by simp
    then have "?p \<in> set (map snd registry)" by (auto simp: findApplicablePlugins_def)
    then have look: "getPlugin registry (name ?p) = Some ?p"
      by (rule registered_lookup [OF reg])
    have nth: "executeApplicablePlugins registry ctx readings ! i =
        (case executePlugin registry (name ?p) ctx
                (fst (readings (name ?p))) (snd (readings (name ?p))) of
           Inr v \<Rightarrow> v
         | Inl reason \<Rightarrow>
             \<lparr>pluginName = name ?p,
              result = \<lparr>success = False,
                         error = Some (''Plugin execution promise rejected: '' @ js_String reason),
                         formattedResponse = None, message = None\<rparr>,
              executionTime = 0\<rparr>)"
      using i by (auto simp: executeApplicablePlugins_def Let_def)
    show "case execute ?p ctx of
            Resolved r \<Rightarrow>
              result (executeApplicablePlugins registry ctx readings ! i) = r
          | Rejected e \<Rightarrow>
              \<not> success (result (executeApplicablePlugins registry ctx readings ! i)) \<and>
              error (result (executeApplicablePlugins registry ctx readings ! i)) \<noteq> None
          | Pending \<Rightarrow>
              \<not> success (result (executeApplicablePlugins registry ctx readings ! i)) \<and>
              error (result (executeApplicablePlugins registry ctx readings ! i)) \<noteq> None"
      unfolding nth
      by (simp add: executePlugin_def look executeWithTimeout_def split: execution.splits)
  }
qed

lemma registry0_eq:
  "registry0 = [(''slow'', slowPlugin), (''quick'', quickPlugin), (''faulty'', faultyPlugin),
                (''throwing'', throwingPlugin)]"
  by (simp add: registry0_def register_def slowPlugin_def quickPlugin_def faultyPlugin_def
        throwingPlugin_def)

lemma applicable0:
  "findApplicablePlugins registry0 context0 = [slowPlugin, quickPlugin, faultyPlugin]"
  by (simp add: registry0_eq findApplicablePlugins_def slowPlugin_def quickPlugin_def
        faultyPlugin_def throwingPlugin_def)

theorem executeApplicablePlugins_collects_all_witness:
  "registered registry0 \<and>
   findApplicablePlugins registry0 context0 = [slowPlugin, quickPlugin, faultyPlugin] \<and>
   map pluginName (executeApplicablePlugins registry0 context0 readings0) =
     [''slow'', ''quick'', ''faulty''] \<and>
   execute slowPlugin context0 = Pending \<and>
   \<not> success (result (executeApplicablePlugins registry0 context0 readings0 ! 0)) \<and>
   error (result (executeApplicablePlugins registry0 context0 readings0 ! 0)) \<noteq> None \<and>
   execute quickPlugin context0 = Resolved quickResult \<and>
   result (executeApplicablePlugins registry0 context0 readings0 ! 1) = quickResult \<and>
   execute faultyPlugin context0 = Rejected (Error ''network down'') \<and>
   \<not> success (result (executeApplicablePlugins registry0 context0 readings0 ! 2)) \<and>
   error (result (executeApplicablePlugins registry0 context0 readings0 ! 2)) \<noteq> None"
proof -
  have reg: "registered registry0"
    unfolding registry0_def by (intro registered_register registered_empty)
  note all = executeApplicablePlugins_collects_all [of registry0 context0 readings0]
  have names: "map pluginName (executeApplicablePlugins registry0 context0 readings0) =
      [''slow'', ''quick'', ''faulty'']"
    using all by (simp add: applicable0 slowPlugin_def quickPlugin_def faultyPlugin_def)
  have each: "i < 3 \<Longrightarrow>
      (case execute ([slowPlugin, quickPlugin, faultyPlugin] ! i) context0 of
         Resolved r \<Rightarrow> result (executeApplicablePlugins registry0 context0 readings0 ! i) = r
       | Rejected e \<Rightarrow>
           \<not> success (result (executeApplicablePlugins registry0 context0 readings0 ! i)) \<and>
           error (result (executeApplicablePlugins registry0 context0 readings0 ! i)) \<noteq> None
       | Pending \<Rightarrow>
           \<not> success (result (executeApplicablePlugins registry0 context0 readings0 ! i)) \<and>
           error (result (executeApplicablePlugins registry0 context0 readings0 ! i)) \<noteq> None)"
    for i
    using all reg by (simp add: applicable0)
  have e0: "execute slowPlugin context0 = Pending"
    and e1: "execute quickPlugin context0 = Resolved quickResult"
    and e2: "execute faultyPlugin context0 = Rejected (Error ''network down'')"
    by (simp_all add: slowPlugin_def quickPlugin_def faultyPlugin_def)
  have r0: "\<not> success (result (executeApplicablePlugins registry0 context0 readings0 ! 0)) \<and>
      error (result (executeApplicablePlugins registry0 context0 readings0 ! 0)) \<noteq> None"
    using each [of 0] by (simp add: e0)
  have r1: "result (executeApplicablePlugins registry0 context0 readings0 ! 1) = quickResult"
    using each [of 1] by (simp add: e1)
  have r2: "\<not> success (result (executeApplicablePlugins registry0 context0 readings0 ! 2)) \<and>
      error (result (executeApplicablePlugins registry0 context0 readings0 ! 2)) \<noteq> None"
    using each [of 2] by (simp add: e2)
  show ?thesis
    using reg applicable0 names e0 e1 e2 r0 r1 r2 by blast
qed

text \<open>
  Claim C9, as amended. For a name that is no key of the registry \<open>executePlugin\<close>
  fulfils (it does not reject) with a result whose \<open>success\<close> is false and whose error
  text says that the plugin was not found. The elapsed time it reports is the difference
  of the two clock readings, which is zero only when the clock did not advance between
  them.
\<close>

theorem executePlugin_not_found:
  "n \<notin> set (map fst registry) \<Longrightarrow>
   executePlugin registry n ctx startTime endTime =
     Inr \<lparr>pluginName = n,
          result = \<lparr>success = False,
                     error = Some (''Plugin '' @ [CHR 0x27] @ n @ [CHR 0x27] @ '' not found''),
                     formattedResponse = None, message = None\<rparr>,
          executionTime = endTime - startTime\<rparr>"
  by (simp add: executePlugin_def getPlugin_def map_of_eq_None_iff [THEN iffD2])

theorem executePlugin_not_found_witness:
  "''ghost'' \<notin> set (map fst registry0) \<and>
   executePlugin registry0 ''ghost'' context0 1000 1000 =
     Inr \<lparr>pluginName = ''ghost'',
          result = \<lparr>success = False, error = Some ''Plugin 'ghost' not found'',
                     formattedResponse = None, message = None\<rparr>,
          executionTime = 0\<rparr>"
  using executePlugin_not_found [of "''ghost''" registry0 context0 1000 1000]
  by (simp add: registry0_eq)

text \<open>
  The claim as stated promises zero elapsed time. With the clock at 1000 on entry and at
  1001 when the result is built, the result for the unknown name \<open>ghost\<close> reports one
  millisecond.
\<close>

theorem executePlugin_not_found_elapsed:
  "executePlugin registry0 ''ghost'' context0 1000 1001 =
     Inr \<lparr>pluginName = ''ghost'',
          result = \<lparr>success = False, error = Some ''Plugin 'ghost' not found'',
                     formattedResponse = None, message = None\<rparr>,
          executionTime = 1\<rparr>"
  by (simp add: executePlugin_def getPlugin_def registry0_eq)

section \<open>Properties of retrieval\<close>

lemma set_addSource:
  "set (addSource acc d) = set acc \<union> {s. s \<noteq> [] \<and> source (metadata d) = Some s}"
  by (cases "source (metadata d)") (auto simp: addSource_def truthy_def js_print_def)

lemma extractSources_fold:
  "set (foldl addSource acc documents) =
     set acc \<union> {s. s \<noteq> [] \<and> (\<exists>doc \<in> set documents. source (metadata doc) = Some s)}"
  by (induction documents arbitrary: acc) (auto simp: set_addSource)

lemma extractSources_distinct_fold:
  "distinct acc \<Longrightarrow> distinct (foldl addSource acc documents)"
  by (induction documents arbitrary: acc) (auto simp: addSource_def)

lemma set_extractSources:
  "set (extractSources documents) =
     {s. s \<noteq> [] \<and> (\<exists>doc \<in> set documents. source (metadata doc) = Some s)}"
  unfolding extractSources_def by (simp add: extractSources_fold)

lemma distinct_extractSources: "distinct (extractSources documents)"
  unfolding extractSources_def by (rule extractSources_distinct_fold) simp

lemma generateResponse_Inr:
  assumes "generateResponse col clk rag q topK = (rag', cs, Inr r)"
  shows "\<exists>documents. searchSimilar col q topK = Inr documents \<and>
           sources_rr r = extractSources documents \<and>
           context_rr r = createContext documents q"
  using assms
  by (auto simp: generateResponse_def Let_def split: if_splits option.splits sum.splits)

text \<open>
  Claim C10. When \<open>generateResponse\<close> returns a response, its sources are the sources
  extracted from all the matches the similarity search returned: each non-empty source of
  a match, once, whatever the score of the match. The context, in contrast, keeps only
  the matches above the threshold. So a match below the threshold contributes its source
  to the response and nothing to the prompt; the witness shows one.
\<close>

theorem generateResponse_sources:
  assumes "generateResponse col clk rag q topK = (rag', cs, Inr r)"
  shows "\<exists>documents. searchSimilar col q topK = Inr documents \<and>
           sources_rr r = extractSources documents \<and>
           distinct (sources_rr r) \<and>
           set (sources_rr r) =
             {s. s \<noteq> [] \<and> (\<exists>doc \<in> set documents. source (metadata doc) = Some s)} \<and>
           relevantDocuments (context_rr r) = filter (\<lambda>doc. js_0_7 < score doc) documents"
proof -
  from generateResponse_Inr [OF assms] obtain documents where
    d: "searchSimilar col q topK = Inr documents"
       "sources_rr r = extractSources documents"
       "context_rr r = createContext documents q"
    by blast
  have "relevantDocuments (createContext documents q) = filter (\<lambda>doc. js_0_7 < score doc) documents"
    by (simp add: createContext_def Let_def)
  with d show ?thesis
    by (auto simp: set_extractSources distinct_extractSources)
qed

text \<open>
  Claim C5, as amended. \<open>createContext\<close> retains exactly the matches whose score is
  strictly greater than the threshold \<open>0.7\<close>: a match of the search is among the
  retained ones if and only if its score exceeds the threshold, and the context built
  (the documents and the prompt) is the one built from the retained matches alone. A
  match whose score equals the threshold is excluded.
\<close>

theorem createContext_relevance_filter:
  "relevantDocuments (createContext documents q) = filter (\<lambda>doc. js_0_7 < score doc) documents \<and>
   (\<forall>doc \<in> set documents.
      (doc \<in> set (relevantDocuments (createContext documents q))) = (js_0_7 < score doc)) \<and>
   createContext documents q = createContext (filter (\<lambda>doc. js_0_7 < score doc) documents) q"
  by (auto simp: createContext_def Let_def)

theorem createContext_relevance_filter_witness:
  "set [guideDoc, boundaryDoc, weakDoc] = {guideDoc, boundaryDoc, weakDoc} \<and>
   relevantDocuments (createContext [guideDoc, boundaryDoc, weakDoc] ''how to group routes'') =
     [guideDoc]"
proof -
  have "relevantDocuments (createContext [guideDoc, boundaryDoc, weakDoc] ''how to group routes'') =
      filter (\<lambda>doc. js_0_7 < score doc) [guideDoc, boundaryDoc, weakDoc]"
    using createContext_relevance_filter
      [of "[guideDoc, boundaryDoc, weakDoc]" "''how to group routes''"]
    by blast
  also have "\<dots> = [guideDoc]"
    by (simp add: guideDoc_def boundaryDoc_def weakDoc_def js_0_7_def)
  finally show ?thesis by simp
qed

lemma prompt0_excludes:
  "\<not> js_includes (contextualPrompt
      (createContext [guideDoc, boundaryDoc, weakDoc] ''how to group routes''))
      (content_sr weakDoc)"
  by code_simp

text \<open>
  The claim as stated retains a match whose score is at the threshold. The code tests
  \<open>doc.score > 0.7\<close>: a match with the score \<open>0.7\<close> is at the threshold and is not
  retained.
\<close>

theorem createContext_threshold_excluded:
  "js_0_7 \<le> score boundaryDoc \<and>
   boundaryDoc \<notin> set (relevantDocuments (createContext [boundaryDoc] ''what is REST''))"
  by (simp add: createContext_def boundaryDoc_def)

lemma generateResponse0:
  "generateResponse collaborators0 clock0 newRAGService ''how to group routes'' 3 =
     (\<lparr>isInitialized = True\<rparr>,
      [Initialize, SearchSimilar ''how to group routes'' 3,
       Completion (contextualRequest clock0
         (createContext [guideDoc, boundaryDoc, weakDoc] ''how to group routes''))],
      Inr ragResponse0)"
  by (simp add: generateResponse_def collaborators0_def newRAGService_def Let_def
        generateContextualResponse_def ragResponse0_def extractSources_def addSource_def
        truthy_def js_print_def guideDoc_def boundaryDoc_def weakDoc_def)

theorem generateResponse_sources_witness:
  "generateResponse collaborators0 clock0 newRAGService ''how to group routes'' 3 =
     (\<lparr>isInitialized = True\<rparr>,
      [Initialize, SearchSimilar ''how to group routes'' 3,
       Completion (contextualRequest clock0
         (createContext [guideDoc, boundaryDoc, weakDoc] ''how to group routes''))],
      Inr ragResponse0) \<and>
   searchSimilar collaborators0 ''how to group routes'' 3 = Inr [guideDoc, boundaryDoc, weakDoc] \<and>
   set (sources_rr ragResponse0) =
     {''express-guide.md'', ''rest-api-design.md'', ''security-guide.md''} \<and>
   distinct (sources_rr ragResponse0) \<and>
   relevantDocuments (context_rr ragResponse0) = [guideDoc] \<and>
   source (metadata weakDoc) = Some ''security-guide.md'' \<and>
   \<not> js_includes (contextualPrompt (context_rr ragResponse0)) (content_sr weakDoc)"
proof -
  have search: "searchSimilar collaborators0 ''how to group routes'' 3 =
      Inr [guideDoc, boundaryDoc, weakDoc]"
    by (simp add: collaborators0_def)
  from generateResponse_sources [OF generateResponse0] obtain documents where
    d: "searchSimilar collaborators0 ''how to group routes'' 3 = Inr documents"
    and dist: "distinct (sources_rr ragResponse0)"
    and rel: "relevantDocuments (context_rr ragResponse0) =
      filter (\<lambda>doc. js_0_7 < score doc) documents"
    by blast
  from d search have docs: "documents = [guideDoc, boundaryDoc, weakDoc]"
    by simp
  have kept: "filter (\<lambda>doc. js_0_7 < score doc) [guideDoc, boundaryDoc, weakDoc] = [guideDoc]"
    by (simp add: guideDoc_def boundaryDoc_def weakDoc_def js_0_7_def)
  have rel': "relevantDocuments (context_rr ragResponse0) = [guideDoc]"
    unfolding rel docs by (rule kept)
  have srcs: "set (sources_rr ragResponse0) =
      {''express-guide.md'', ''rest-api-design.md'', ''security-guide.md''}"
    by (simp add: ragResponse0_def)
  have weak: "source (metadata weakDoc) = Some ''security-guide.md''"
    by (simp add: weakDoc_def)
  have ctx: "context_rr ragResponse0 =
      createContext [guideDoc, boundaryDoc, weakDoc] ''how to group routes''"
    by (simp add: ragResponse0_def)
  have absent: "\<not> js_includes (contextualPrompt (context_rr ragResponse0)) (content_sr weakDoc)"
    unfolding ctx by (rule prompt0_excludes)
  show ?thesis
    by (intro conjI generateResponse0 search srcs dist rel' weak absent)
qed

section \<open>Properties of the agent controller\<close>

lemma generateMemorySummary_returns: "\<exists>s. generateMemorySummary svc clk sid = Inr s"
proof (cases "sessions svc sid")
  case None
  then show ?thesis by (simp add: generateMemorySummary_def)
next
  case (Some session)
  show ?thesis
  proof (cases "messages session = []")
    case True
    with Some show ?thesis by (simp add: generateMemorySummary_def)
  next
    case False
    with Some show ?thesis
      by (simp add: generateMemorySummary_def Let_def js_index_last)
  qed
qed

text \<open>
  Claim C1. A request that fails validation is answered with the validation error and
  nothing else happens. For every other request \<open>handleMessage\<close> chooses in this order.
  When at least one plugin result has \<open>success = true\<close>, the reply is the
  formatted outputs of the successful plugins joined by blank lines, the plugins used are
  their names, and no collaborator is called at all. Otherwise, when \<open>shouldUseRAG\<close>
  holds of the message, the calls made and the reply (or the error) are those of
  \<open>generateResponse\<close> on the message with \<open>topK = 3\<close>. Otherwise exactly one call is
  made, the completion on the conversation history with the system prompt, and its
  content is the reply (or its error the outcome).
\<close>

theorem handleMessage_strategy:
  "(let msg = message_ar body;
        sid = session_id_ar body;
        pluginContext = \<lparr>query = msg, sessionId = sid, userMessage = msg,
                         timestamp_ctx = now_iso clk\<rparr>;
        results = executeApplicablePlugins (pluginRegistry svcs) pluginContext readings;
        successfulPlugins = filter (\<lambda>r. success (result r)) results;
        mem1 = addMessage (memoryService svcs) clk sid
                 \<lparr>role = User, content = msg, timestamp = now_iso clk\<rparr>;
        handled = handleMessage col clk readings svcs body
    in case validateRequest body of
         Some err \<Rightarrow>
           calls handled = [] \<and>
           outcome handled = Inl (ApiError err 400 ''VALIDATION_ERROR'')
       | None \<Rightarrow>
           (successfulPlugins \<noteq> [] \<longrightarrow>
              calls handled = [] \<and>
              outcome handled =
                Inr \<lparr>reply = pluginResponses successfulPlugins, session_id = sid,
                     timestamp_resp = now_iso clk, sources = [],
                     plugins_used = map pluginName successfulPlugins\<rparr>) \<and>
           (successfulPlugins = [] \<and> shouldUseRAG msg \<longrightarrow>
              (case generateResponse col clk (ragService svcs) msg 3 of
                 (rag', made, produced) \<Rightarrow>
                   calls handled = made \<and>
                   outcome handled =
                     (case produced of
                        Inl e \<Rightarrow> Inl e
                      | Inr ragResponse \<Rightarrow>
                          Inr \<lparr>reply = response ragResponse, session_id = sid,
                               timestamp_resp = now_iso clk, sources = sources_rr ragResponse,
                               plugins_used = []\<rparr>))) \<and>
           (successfulPlugins = [] \<and> \<not> shouldUseRAG msg \<longrightarrow>
              (\<exists>summary. generateMemorySummary mem1 clk sid = Inr summary \<and>
                 (let req = conversationalRequest (getConversationContext mem1 sid 6)
                              (generateSystemPrompt_agent summary)
                  in calls handled = [Completion req] \<and>
                     outcome handled =
                       (case openaiGenerateResponse col req of
                          Inl e \<Rightarrow> Inl e
                        | Inr r \<Rightarrow>
                            Inr \<lparr>reply = content_resp r, session_id = sid,
                                 timestamp_resp = now_iso clk, sources = [],
                                 plugins_used = []\<rparr>)))))"
proof (cases "validateRequest body")
  case (Some err)
  then show ?thesis by (simp add: handleMessage_def Let_def)
next
  case None
  define msg where "msg = message_ar body"
  define sid where "sid = session_id_ar body"
  define mem1 where "mem1 = addMessage (memoryService svcs) clk sid
                  \<lparr>role = User, content = msg, timestamp = now_iso clk\<rparr>"
  obtain summary where s: "generateMemorySummary mem1 clk sid = Inr summary"
    using generateMemorySummary_returns by blast
  show ?thesis
    unfolding Let_def
    using None s
    by (auto simp: handleMessage_def Let_def msg_def sid_def mem1_def
             split: sum.splits prod.splits)
qed

lemma valid_requests:
  "validateRequest pluginRequest = None"
  "validateRequest ragRequest = None"
  "validateRequest plainRequest = None"
  "validateRequest blankRequest = Some ''Message cannot be empty''"
  by (simp_all add: validateRequest_def pluginRequest_def ragRequest_def plainRequest_def
        blankRequest_def js_trim_def is_space_def)

lemma rag_yes: "shouldUseRAG ''how to group routes''"
  by code_simp

lemma rag_no: "\<not> shouldUseRAG ''Hello there''"
  by code_simp

lemma no_plugins: "executeApplicablePlugins [] ctx readings = []"
  by (simp add: executeApplicablePlugins_def findApplicablePlugins_def)

lemma applicable_registry0:
  "findApplicablePlugins registry0 ctx = [slowPlugin, quickPlugin, faultyPlugin]"
  by (simp add: registry0_eq findApplicablePlugins_def slowPlugin_def quickPlugin_def
        faultyPlugin_def throwingPlugin_def)

lemma lookups_registry0:
  "getPlugin registry0 ''slow'' = Some slowPlugin"
  "getPlugin registry0 ''quick'' = Some quickPlugin"
  "getPlugin registry0 ''faulty'' = Some faultyPlugin"
  by (simp_all add: getPlugin_def registry0_eq)

lemma successful_registry0:
  "filter (\<lambda>r. success (result r)) (executeApplicablePlugins registry0 ctx readings0) =
     [\<lparr>pluginName = ''quick'', result = quickResult, executionTime = 3\<rparr>]"
proof -
  have n: "name slowPlugin = ''slow''" "name quickPlugin = ''quick''"
      "name faultyPlugin = ''faulty''"
    by (simp_all add: slowPlugin_def quickPlugin_def faultyPlugin_def)
  have e: "execute slowPlugin ctx = Pending" "execute quickPlugin ctx = Resolved quickResult"
      "execute faultyPlugin ctx = Rejected (Error ''network down'')"
    by (simp_all add: slowPlugin_def quickPlugin_def faultyPlugin_def)
  show ?thesis
    by (simp add: executeApplicablePlugins_def applicable_registry0 Let_def executePlugin_def
          n e lookups_registry0 executeWithTimeout_def readings0_def quickResult_def)
qed

theorem handleMessage_strategy_witness:
  "validateRequest pluginRequest = None \<and>
   calls (handleMessage collaborators0 clock0 readings0 services0 pluginRequest) = [] \<and>
   outcome (handleMessage collaborators0 clock0 readings0 services0 pluginRequest) =
     Inr \<lparr>reply = ''15 + 27 = 42'', session_id = ''s1'',
          timestamp_resp = ''2024-01-01T00:00:00.000Z'', sources = [],
          plugins_used = [''quick'']\<rparr> \<and>
   validateRequest ragRequest = None \<and> shouldUseRAG (message_ar ragRequest) \<and>
   calls (handleMessage collaborators0 clock0 readings0 services1 ragRequest) =
     [Initialize, SearchSimilar ''how to group routes'' 3,
      Completion (contextualRequest clock0
        (createContext [guideDoc, boundaryDoc, weakDoc] ''how to group routes''))] \<and>
   outcome (handleMessage collaborators0 clock0 readings0 services1 ragRequest) =
     Inr \<lparr>reply = ''Group the routes with express.Router.'', session_id = ''s1'',
          timestamp_resp = ''2024-01-01T00:00:00.000Z'',
          sources = [''express-guide.md'', ''rest-api-design.md'', ''security-guide.md''],
          plugins_used = []\<rparr> \<and>
   validateRequest plainRequest = None \<and> \<not> shouldUseRAG (message_ar plainRequest) \<and>
   length (calls (handleMessage collaborators0 clock0 readings0 services1 plainRequest)) = 1 \<and>
   outcome (handleMessage collaborators0 clock0 readings0 services1 plainRequest) =
     Inr \<lparr>reply = ''Group the routes with express.Router.'', session_id = ''s1'',
          timestamp_resp = ''2024-01-01T00:00:00.000Z'', sources = [], plugins_used = []\<rparr> \<and>
   validateRequest blankRequest = Some ''Message cannot be empty'' \<and>
   calls (handleMessage collaborators0 clock0 readings0 services1 blankRequest) = [] \<and>
   outcome (handleMessage collaborators0 clock0 readings0 services1 blankRequest) =
     Inl (ApiError ''Message cannot be empty'' 400 ''VALIDATION_ERROR'')"
proof -
  have a: "calls (handleMessage collaborators0 clock0 readings0 services0 pluginRequest) = [] \<and>
      outcome (handleMessage collaborators0 clock0 readings0 services0 pluginRequest) =
        Inr \<lparr>reply = ''15 + 27 = 42'', session_id = ''s1'',
             timestamp_resp = ''2024-01-01T00:00:00.000Z'', sources = [],
             plugins_used = [''quick'']\<rparr>"
    using handleMessage_strategy
        [of pluginRequest clock0 services0 readings0 collaborators0, unfolded valid_requests option.case]
    by (simp add: valid_requests Let_def services0_def successful_registry0 pluginRequest_def clock0_def
          pluginResponses_def quickResult_def js_or_def truthy_def js_print_def)
  have b: "calls (handleMessage collaborators0 clock0 readings0 services1 ragRequest) =
        [Initialize, SearchSimilar ''how to group routes'' 3,
         Completion (contextualRequest clock0
           (createContext [guideDoc, boundaryDoc, weakDoc] ''how to group routes''))] \<and>
      outcome (handleMessage collaborators0 clock0 readings0 services1 ragRequest) =
        Inr \<lparr>reply = ''Group the routes with express.Router.'', session_id = ''s1'',
             timestamp_resp = ''2024-01-01T00:00:00.000Z'',
             sources = [''express-guide.md'', ''rest-api-design.md'', ''security-guide.md''],
             plugins_used = []\<rparr>"
    using handleMessage_strategy
        [of ragRequest clock0 services1 readings0 collaborators0, unfolded valid_requests option.case]
      rag_yes
    by (simp add: valid_requests Let_def services1_def no_plugins ragRequest_def generateResponse0
          ragResponse0_def) (simp add: clock0_def)
  have c: "length (calls (handleMessage collaborators0 clock0 readings0 services1 plainRequest)) = 1 \<and>
      outcome (handleMessage collaborators0 clock0 readings0 services1 plainRequest) =
        Inr \<lparr>reply = ''Group the routes with express.Router.'', session_id = ''s1'',
             timestamp_resp = ''2024-01-01T00:00:00.000Z'', sources = [], plugins_used = []\<rparr>"
    using handleMessage_strategy
        [of plainRequest clock0 services1 readings0 collaborators0, unfolded valid_requests option.case]
      rag_no
    by (auto simp: valid_requests Let_def services1_def no_plugins plainRequest_def collaborators0_def clock0_def)
  have d: "calls (handleMessage collaborators0 clock0 readings0 services1 blankRequest) = [] \<and>
      outcome (handleMessage collaborators0 clock0 readings0 services1 blankRequest) =
        Inl (ApiError ''Message cannot be empty'' 400 ''VALIDATION_ERROR'')"
    using handleMessage_strategy
        [of blankRequest clock0 services1 readings0 collaborators0, unfolded valid_requests option.case]
    by (simp add: valid_requests Let_def)
  show ?thesis
    using a b c d valid_requests rag_yes rag_no
    by (simp add: ragRequest_def plainRequest_def)
qed

section \<open>Properties of prompt assembly\<close>




















section \<open>Properties of chunking\<close>

lemma length_js_substring:
  "0 \<le> a \<Longrightarrow> a \<le> b \<Longrightarrow> int (length (js_substring s a b)) \<le> b - a"
  by (auto simp: js_substring_def Let_def min_def max_def)

lemma length_js_substring_le: "length (js_substring s 0 k) \<le> length s"
  by (auto simp: js_substring_def Let_def min_def max_def)

lemma length_js_trim: "length (js_trim s) \<le> length s"
proof -
  have "length (dropWhile is_space (rev (dropWhile is_space s))) \<le> length (dropWhile is_space s)"
    using length_dropWhile_le [of is_space "rev (dropWhile is_space s)"] by simp
  also have "\<dots> \<le> length s" by (rule length_dropWhile_le)
  finally show ?thesis by (simp add: js_trim_def)
qed

lemma length_windowChunk:
  assumes "0 \<le> cur" and "cur \<le> endPos"
  shows "int (length (windowChunk text cur endPos)) \<le> endPos - cur"
proof -
  let ?c = "js_substring text cur endPos"
  have c: "int (length ?c) \<le> endPos - cur"
    using assms by (rule length_js_substring)
  have "length (windowChunk text cur endPos) \<le> length ?c"
    using length_js_trim [of ?c] length_js_trim [of "js_substring ?c 0 k" for k]
      length_js_substring_le [of ?c]
    by (auto simp: windowChunk_def Let_def intro: order_trans)
  with c show ?thesis by linarith
qed

lemma nextPosition_later:
  assumes "0 < cur" and "int (length c) \<le> endPos - cur"
  shows "nextPosition endPos c overlap = endPos - overlap"
  using assms by (simp add: nextPosition_def Let_def)

lemma nextPosition_first:
  assumes "int (length c) \<le> endPos"
  shows "nextPosition endPos c overlap =
           (if int (length c) = endPos then endPos else endPos - overlap)"
  using assms by (simp add: nextPosition_def Let_def)

lemma chunkLoop_more_fuel:
  "chunkLoop fuel text m ov cur acc = Some ws \<Longrightarrow>
   chunkLoop (fuel + k) text m ov cur acc = Some ws"
proof (induction fuel arbitrary: cur acc)
  case 0
  then show ?case by simp
next
  case (Suc fuel)
  then show ?case by (auto simp: Let_def split: if_splits)
qed

lemma chunkLoop_later:
  assumes "0 \<le> ov" and "ov < m" and "0 < cur" and "nat (int (length text) - cur) < fuel"
  shows "\<exists>new. chunkLoop fuel text m ov cur acc = Some (acc @ new) \<and>
           (cur < int (length text) \<longrightarrow>
              new \<noteq> [] \<and> currentPosition (hd new) = cur \<and>
              endPosition (last new) = int (length text)) \<and>
           (\<forall>w \<in> set new. endPosition w = min (currentPosition w + m) (int (length text))) \<and>
           (\<forall>i. Suc i < length new \<longrightarrow>
              currentPosition (new ! Suc i) = endPosition (new ! i) - ov)"
  using assms(3,4)
proof (induction fuel arbitrary: cur acc)
  case 0
  then show ?case by simp
next
  case (Suc fuel)
  let ?len = "int (length text)"
  show ?case
  proof (cases "cur < ?len")
    case False
    then show ?thesis by (intro exI [of _ "[]"]) simp
  next
    case True
    let ?e = "min (cur + m) ?len"
    let ?c = "windowChunk text cur ?e"
    let ?w = "\<lparr>currentPosition = cur, endPosition = ?e, chunk = ?c\<rparr>"
    show ?thesis
    proof (cases "?e \<ge> ?len")
      case True
      with \<open>cur < ?len\<close> have "chunkLoop (Suc fuel) text m ov cur acc = Some (acc @ [?w])"
        by (simp add: Let_def)
      moreover from True have "?e = ?len" by simp
      ultimately show ?thesis
        by (intro exI [of _ "[?w]"]) simp
    next
      case False
      then have e: "?e = cur + m" and lt: "cur + m < ?len" by simp_all
      have "int (length ?c) \<le> ?e - cur"
        using Suc.prems(1) assms(1,2) by (intro length_windowChunk) (simp_all add: e)
      then have next_pos: "nextPosition ?e ?c ov = ?e - ov"
        using Suc.prems(1) by (intro nextPosition_later)
      let ?cur' = "?e - ov"
      have next_pos': "nextPosition (cur + m) (windowChunk text cur (cur + m)) ov = cur + m - ov"
        using next_pos by (simp add: e)
      have step: "chunkLoop (Suc fuel) text m ov cur acc =
          chunkLoop fuel text m ov ?cur' (acc @ [?w])"
        using \<open>cur < ?len\<close> False by (simp add: Let_def next_pos')
      have pos: "0 < ?cur'" and fuel: "nat (?len - ?cur') < fuel" and inside: "?cur' < ?len"
        using Suc.prems assms(1,2) lt by (simp_all add: e)
      from Suc.IH [OF pos fuel, of "acc @ [?w]"] inside obtain new where
        new: "chunkLoop fuel text m ov ?cur' (acc @ [?w]) = Some ((acc @ [?w]) @ new)"
        and ne: "new \<noteq> []" and first: "currentPosition (hd new) = ?cur'"
        and final: "endPosition (last new) = ?len"
        and ends: "\<forall>w \<in> set new. endPosition w = min (currentPosition w + m) ?len"
        and pairs: "\<forall>i. Suc i < length new \<longrightarrow>
              currentPosition (new ! Suc i) = endPosition (new ! i) - ov"
        by blast
      have pairs': "currentPosition ((?w # new) ! Suc i) = endPosition ((?w # new) ! i) - ov"
        if "Suc i < length (?w # new)" for i
      proof (cases i)
        case 0
        then show ?thesis using ne first by (simp add: hd_conv_nth)
      next
        case (Suc j)
        then show ?thesis using that pairs by simp
      qed
      show ?thesis
        using step new ne final ends pairs'
        by (intro exI [of _ "?w # new"]) (simp del: chunkLoop.simps)
    qed
  qed
qed

text \<open>
  Claim C7, as amended. For \<open>0 \<le> overlap < maxChunkSize\<close> the loop ends (within
  \<open>length text + 1\<close> iterations). The first window starts at 0, every window ends at its
  start plus \<open>maxChunkSize\<close> or at the end of the text if that comes first, and the last
  window ends at the end of the text. Every window after the second starts at the end of
  the window before it minus \<open>overlap\<close>. So does the second, unless the first chunk, after
  the cut at a sentence end and the trim, still has the full length \<open>maxChunkSize\<close>:
  then the guard after the subtraction moves the position back to the end of the first
  window, and the first two windows do not overlap.
\<close>

theorem chunkWindows_overlap:
  assumes "0 \<le> overlap" and "overlap < maxChunkSize"
  shows "\<exists>windows.
           chunkWindows (Suc (length text)) text maxChunkSize overlap = Some windows \<and>
           (text \<noteq> [] \<longrightarrow>
              windows \<noteq> [] \<and> currentPosition (hd windows) = 0 \<and>
              endPosition (last windows) = int (length text)) \<and>
           (\<forall>w \<in> set windows.
              endPosition w = min (currentPosition w + maxChunkSize) (int (length text))) \<and>
           (\<forall>i. Suc i < length windows \<longrightarrow>
              currentPosition (windows ! Suc i) =
                (if i = 0 \<and> int (length (chunk (windows ! 0))) = maxChunkSize
                 then endPosition (windows ! 0)
                 else endPosition (windows ! i) - overlap))"
proof (cases "text = []")
  case True
  then show ?thesis by (simp add: chunkWindows_def)
next
  case False
  let ?len = "int (length text)"
  let ?m = maxChunkSize
  let ?e = "min ?m ?len"
  let ?c = "windowChunk text 0 ?e"
  let ?w = "\<lparr>currentPosition = 0, endPosition = ?e, chunk = ?c\<rparr>"
  from False have pos_len: "0 < ?len" by simp
  show ?thesis
  proof (cases "?e \<ge> ?len")
    case True
    with pos_len have "chunkWindows (Suc (length text)) text ?m overlap = Some [?w]"
      by (simp add: chunkWindows_def Let_def)
    moreover from True have "?e = ?len" by simp
    ultimately show ?thesis by simp
  next
    case False
    then have e: "?e = ?m" and lt: "?m < ?len" by simp_all
    have c_le: "int (length ?c) \<le> ?e"
      using length_windowChunk [of 0 "?e" "text"] assms by (simp add: e)
    let ?cur' = "if int (length ?c) = ?e then ?e else ?e - overlap"
    have next_pos: "nextPosition ?e ?c overlap = ?cur'"
      using c_le by (rule nextPosition_first)
    have next_pos': "nextPosition ?m (windowChunk text 0 ?m) overlap =
        (if int (length (windowChunk text 0 ?m)) = ?m then ?m else ?m - overlap)"
      using next_pos by (simp add: e)
    have step: "chunkWindows (Suc (length text)) text ?m overlap =
        chunkLoop (length text) text ?m overlap ?cur' [?w]"
      using pos_len False by (simp add: chunkWindows_def Let_def next_pos' e)
    have pos: "0 < ?cur'" and inside: "?cur' < ?len"
      using assms lt by (simp_all add: e)
    have fuel: "nat (?len - ?cur') < length text"
      using pos inside by linarith
    from chunkLoop_later [OF assms pos fuel, of "[?w]"] inside obtain new where
      new: "chunkLoop (length text) text ?m overlap ?cur' [?w] = Some ([?w] @ new)"
      and ne: "new \<noteq> []" and first: "currentPosition (hd new) = ?cur'"
      and final: "endPosition (last new) = ?len"
      and ends: "\<forall>w \<in> set new. endPosition w = min (currentPosition w + ?m) ?len"
      and pairs: "\<forall>i. Suc i < length new \<longrightarrow>
            currentPosition (new ! Suc i) = endPosition (new ! i) - overlap"
      by blast
    have pairs': "currentPosition ((?w # new) ! Suc i) =
        (if i = 0 \<and> int (length (chunk ((?w # new) ! 0))) = ?m
         then endPosition ((?w # new) ! 0)
         else endPosition ((?w # new) ! i) - overlap)"
      if "Suc i < length (?w # new)" for i
    proof (cases i)
      case 0
      then show ?thesis using ne first by (simp add: hd_conv_nth e)
    next
      case (Suc j)
      then show ?thesis using that pairs by simp
    qed
    have "chunkWindows (Suc (length text)) text ?m overlap = Some (?w # new)"
      using step new by simp
    moreover have "\<forall>w \<in> set (?w # new). endPosition w = min (currentPosition w + ?m) ?len"
      using ends by simp
    moreover have "currentPosition (hd (?w # new)) = 0" by simp
    moreover have "endPosition (last (?w # new)) = ?len"
      using ne final by simp
    ultimately show ?thesis
      using pairs' by (intro exI [of _ "?w # new"]) blast
  qed
qed

lemma sentences_windows:
  "chunkWindows 57 sentences 20 5 =
     Some [\<lparr>currentPosition = 0, endPosition = 20, chunk = ''One. Two is here.''\<rparr>,
           \<lparr>currentPosition = 15, endPosition = 35, chunk = ''e. Three! And the re''\<rparr>,
           \<lparr>currentPosition = 30, endPosition = 50, chunk = ''he rest of it goes o''\<rparr>,
           \<lparr>currentPosition = 45, endPosition = 56, chunk = ''oes on. End''\<rparr>]"
  by code_simp

theorem chunkWindows_overlap_witness:
  "(0::int) \<le> 5 \<and> (5::int) < 20 \<and> Suc (length sentences) = 57 \<and>
   chunkWindows 57 sentences 20 5 =
     Some [\<lparr>currentPosition = 0, endPosition = 20, chunk = ''One. Two is here.''\<rparr>,
           \<lparr>currentPosition = 15, endPosition = 35, chunk = ''e. Three! And the re''\<rparr>,
           \<lparr>currentPosition = 30, endPosition = 50, chunk = ''he rest of it goes o''\<rparr>,
           \<lparr>currentPosition = 45, endPosition = 56, chunk = ''oes on. End''\<rparr>]"
proof -
  have len: "Suc (length sentences) = 57"
    by (simp add: sentences_def)
  from chunkWindows_overlap [of 5 20 sentences] obtain windows where
    "chunkWindows (Suc (length sentences)) sentences 20 5 = Some windows"
    by auto
  then show ?thesis
    using sentences_windows len by simp
qed

lemma lastIndexFrom_absent:
  "c \<noteq> x \<Longrightarrow> lastIndexFrom (replicate n c) [x, y] i found = found"
  by (induction n arbitrary: i found) simp_all

lemma js_trim_replicate:
  assumes "\<not> is_space c"
  shows "js_trim (replicate n c) = replicate n c"
proof -
  have "dropWhile is_space (replicate n c) = replicate n c"
    using assms by (cases n) simp_all
  then show ?thesis by (simp add: js_trim_def)
qed

lemma js_substring_replicate:
  "0 \<le> a \<Longrightarrow> a \<le> b \<Longrightarrow> b \<le> int n \<Longrightarrow>
   js_substring (replicate n c) a b = replicate (nat (b - a)) c"
  by (auto simp: js_substring_def Let_def min_def max_def)

lemma windowChunk_replicate:
  assumes "0 \<le> cur" and "cur \<le> endPos" and "endPos \<le> int n"
  shows "windowChunk (replicate n (CHR ''a'')) cur endPos = replicate (nat (endPos - cur)) (CHR ''a'')"
  using assms
  by (simp add: windowChunk_def Let_def js_substring_replicate js_lastIndexOf_def
        lastIndexFrom_absent js_trim_replicate is_space_def)

text \<open>
  The claim as stated has every window start at the end of the one before minus the
  overlap. With the default parameters 1000 and 200 and a text of 1500 letters, the
  first window ends at 1000 and the second starts at 1000, not at 800.
\<close>

theorem chunkWindows_first_pair_no_overlap:
  "chunkWindows 3 (replicate 1500 (CHR ''a'')) 1000 200 =
     Some [\<lparr>currentPosition = 0, endPosition = 1000, chunk = replicate 1000 (CHR ''a'')\<rparr>,
           \<lparr>currentPosition = 1000, endPosition = 1500, chunk = replicate 500 (CHR ''a'')\<rparr>]"
  by (simp add: chunkWindows_def numeral_3_eq_3 Let_def windowChunk_replicate nextPosition_def)

end
